theory Spec2Isabelle
  imports Complex_Main
begin

section \<open>Data model of the one-particle system (SystemOne.cpp)\<close>

text \<open>
  Numbers. The source computes with \<^verbatim>\<open>double\<close>, \<^verbatim>\<open>float\<close> and
  \<^verbatim>\<open>scalar_t\<close> (either \<^verbatim>\<open>double\<close> or \<^verbatim>\<open>std::complex<double>\<close>, fixed when
  the library is compiled). Here \<^verbatim>\<open>double\<close> and \<^verbatim>\<open>float\<close> are the reals (no
  rounding, no infinities), and a \<^verbatim>\<open>scalar_t\<close> is a complex number; \<open>scalar_kind\<close> says which
  of the two builds is meant where the source has one overload for each. The one value that
  is not a number and that SystemOne.cpp itself brings up, the NaN of a coefficient of the
  basis, is modelled where it arises (see \<open>basisvectors_nan\<close> and \<open>std_pow_minus_one\<close>).
\<close>

type_synonym scalar_t = complex

datatype scalar_kind = RealScalar | ComplexScalar

datatype parity_t = NA | EVEN | ODD

text \<open>
  Modelled from the spec: the constant \<^verbatim>\<open>ARB\<close> of dtypes.hpp, which is not among the
  sources; the "distinguished unrestricted sentinel value" of the conserved-momentum set.
  The general theorems below do not depend on the number chosen.
\<close>

definition ARB :: real where
  "ARB = 32767"

text \<open>\<^verbatim>\<open>std::numeric_limits<double>::max()\<close> and \<^verbatim>\<open>lowest()\<close>.\<close>

definition double_max :: real where
  "double_max = (2 ^ 53 - 1) * 2 ^ 971"

definition double_lowest :: real where
  "double_lowest = - double_max"

text \<open>
  Modelled from the spec: the one-particle quantum state of State.hpp, which is not among
  the sources: "species tag, n, l, j, m, an artificial flag, equality, and a reflection-partner
  mapping m \<rightarrow> -m". The fields are named after the accessors the source calls.
\<close>

record StateOne =
  getSpecies :: string
  getN :: int
  getL :: int
  getJ :: real
  getM :: real
  isArtificial :: bool

text \<open>The constructor \<^verbatim>\<open>StateOne(species, n, l, j, m)\<close> of a physical state.\<close>

definition mkStateOne :: "string \<Rightarrow> int \<Rightarrow> int \<Rightarrow> real \<Rightarrow> real \<Rightarrow> StateOne" where
  "mkStateOne sp n l j m =
     \<lparr>getSpecies = sp, getN = n, getL = l, getJ = j, getM = m, isArtificial = False\<rparr>"

definition getReflected :: "StateOne \<Rightarrow> StateOne" where
  "getReflected st = st\<lparr>getM := - getM st\<rparr>"

subsection \<open>Sparse matrices\<close>

text \<open>
  An \<^verbatim>\<open>eigen_sparse_t\<close> is its dimensions and its coefficients; \<open>coeff M r c\<close> is
  zero where nothing is stored. A triplet is (row, column, value).
\<close>

record eigen_sparse_t =
  rows :: nat
  cols :: nat
  coeff :: "nat \<Rightarrow> nat \<Rightarrow> scalar_t"

type_synonym eigen_triplet_t = "nat \<times> nat \<times> scalar_t"

definition empty_sparse :: eigen_sparse_t where
  "empty_sparse = \<lparr>rows = 0, cols = 0, coeff = (\<lambda>r c. 0)\<rparr>"

text \<open>\<^verbatim>\<open>M.resize(nr, nc); M.setFromTriplets(...)\<close>: duplicates are summed up.\<close>

definition setFromTriplets :: "nat \<Rightarrow> nat \<Rightarrow> eigen_triplet_t list \<Rightarrow> eigen_sparse_t" where
  "setFromTriplets nr nc ts =
     \<lparr>rows = nr, cols = nc,
      coeff = (\<lambda>r c. if r < nr \<and> c < nc
                      then sum_list (map (\<lambda>t. snd (snd t)) (filter (\<lambda>t. fst t = r \<and> fst (snd t) = c) ts))
                      else 0)\<rparr>"


definition mat_scale :: "scalar_t \<Rightarrow> eigen_sparse_t \<Rightarrow> eigen_sparse_t" where
  "mat_scale a M = \<lparr>rows = rows M, cols = cols M, coeff = (\<lambda>r c. a * coeff M r c)\<rparr>"

text \<open>
  Sums and products. Eigen asserts that the dimensions fit; the model takes the
  dimensions of the left operand and is meant for operands that fit.
\<close>

definition mat_add :: "eigen_sparse_t \<Rightarrow> eigen_sparse_t \<Rightarrow> eigen_sparse_t" where
  "mat_add A B = \<lparr>rows = rows A, cols = cols A, coeff = (\<lambda>r c. coeff A r c + coeff B r c)\<rparr>"

definition mat_sub :: "eigen_sparse_t \<Rightarrow> eigen_sparse_t \<Rightarrow> eigen_sparse_t" where
  "mat_sub A B = \<lparr>rows = rows A, cols = cols A, coeff = (\<lambda>r c. coeff A r c - coeff B r c)\<rparr>"




subsection \<open>Containers\<close>

text \<open>
  A \<^verbatim>\<open>std::unordered_map\<close> that the source iterates over is a list of (key, value) with
  distinct keys; the order of the list is the order of iteration, which C++ leaves open.
  \<open>subscript_set\<close> is \<^verbatim>\<open>m[k] = v\<close>, \<open>subscript_touch\<close> the insertion of a default value
  that reading \<^verbatim>\<open>m[k]\<close> performs on a missing key, \<open>subscript_get\<close> the value read.
\<close>

fun subscript_set :: "'k \<Rightarrow> 'v \<Rightarrow> ('k \<times> 'v) list \<Rightarrow> ('k \<times> 'v) list" where
  "subscript_set k v [] = [(k, v)]"
| "subscript_set k v (p # ps) = (if fst p = k then (k, v) # ps else p # subscript_set k v ps)"

definition subscript_get :: "('k \<times> 'v::zero) list \<Rightarrow> 'k \<Rightarrow> 'v" where
  "subscript_get al k = (case map_of al k of None \<Rightarrow> 0 | Some v \<Rightarrow> v)"

definition subscript_touch :: "'k \<Rightarrow> ('k \<times> 'v::zero) list \<Rightarrow> ('k \<times> 'v) list" where
  "subscript_touch k al = (case map_of al k of None \<Rightarrow> al @ [(k, 0)] | Some v \<Rightarrow> al)"

text \<open>
  The operator caches are only looked up and assigned, so they are maps. Reading
  \<^verbatim>\<open>cache[k]\<close> on a missing key inserts an empty matrix.
\<close>

definition cache_get :: "('k \<rightharpoonup> eigen_sparse_t) \<Rightarrow> 'k \<Rightarrow> eigen_sparse_t" where
  "cache_get m k = (case m k of None \<Rightarrow> empty_sparse | Some M \<Rightarrow> M)"

definition cache_touch :: "'k \<Rightarrow> ('k \<rightharpoonup> eigen_sparse_t) \<Rightarrow> ('k \<rightharpoonup> eigen_sparse_t)" where
  "cache_touch k m = (case m k of None \<Rightarrow> m(k \<mapsto> empty_sparse) | Some M \<Rightarrow> m)"

text \<open>
  A \<^verbatim>\<open>std::set\<close> is the list of its elements in the order of iteration (ascending, without
  repetition). \<open>set_insert\<close> is \<^verbatim>\<open>insert\<close> of one element, \<open>set_insert_range\<close> of a range.
\<close>

definition set_insert :: "'a::linorder \<Rightarrow> 'a list \<Rightarrow> 'a list" where
  "set_insert x xs = (if x \<in> set xs then xs else insort x xs)"

definition set_insert_range :: "'a::linorder list \<Rightarrow> 'a list \<Rightarrow> 'a list" where
  "set_insert_range ys xs = fold set_insert ys xs"

subsection \<open>The system\<close>

text \<open>
  Modelled from the spec: the three states of the assembler (section 4.3); the base class
  SystemBase, which keeps them, is not among the sources.
\<close>

datatype assembler_state = Clean | ParametersDirty | SymmetryDirty

text \<open>
  The exceptions: one constructor for every \<^verbatim>\<open>throw\<close> of SystemOne.cpp.
\<close>

datatype error =
    ComplexDataTypeNeeded
  | ParityNotCompatible
  | MomentaNotCompatible
  | ArbWithExplicitMomenta
  | BasisInfinite
  | RangeNNotImplemented
  | MomentumNotFound real
  | StateAlreadyContained StateOne
  | StateWrongSpecies StateOne
  | ReflectedStateNotFound StateOne
  | SpeciesDiffer
  | EfieldDiffer
  | BfieldDiffer
  | DiamagnetismDiffer

record SystemOne =
  species :: string
  efield :: "real \<times> real \<times> real"
  bfield :: "real \<times> real \<times> real"
  efield_spherical :: "(int \<times> scalar_t) list"
  bfield_spherical :: "(int \<times> scalar_t) list"
  diamagnetism_terms :: "((int \<times> int) \<times> scalar_t) list"
  diamagnetism :: bool
  charge :: int
  ordermax :: nat
  distance :: real
  sym_reflection :: parity_t
  sym_rotation :: "real list"
  interaction_efield :: "int \<rightharpoonup> eigen_sparse_t"
  interaction_bfield :: "int \<rightharpoonup> eigen_sparse_t"
  interaction_diamagnetism :: "(int \<times> int) \<rightharpoonup> eigen_sparse_t"
  interaction_multipole :: "int \<rightharpoonup> eigen_sparse_t"
  range_n :: "int list"
  range_l :: "int list"
  range_j :: "real list"
  range_m :: "real list"
  energy_min :: real
  energy_max :: real
  states :: "StateOne list"
  states_to_add :: "StateOne list"
  basisvectors :: eigen_sparse_t
  basisvectors_nan :: "(nat \<times> nat) list"
  hamiltonian :: eigen_sparse_t
  assembler :: assembler_state

text \<open>
  \<open>states\<close> is the registry in the order of the indices: the entry at position k has
  \<^verbatim>\<open>idx\<close> k, as every \<^verbatim>\<open>push_back\<close> of the source gives it. \<open>states_to_add\<close> and the four
  ranges are sets, in their order of iteration.

  The member \<^verbatim>\<open>basisvectors\<close> of the source is the pair of \<open>basisvectors\<close> and
  \<open>basisvectors_nan\<close>. A coefficient of the source's matrix can be NaN, which the reals do
  not have: \<open>basisvectors_nan\<close> lists the positions (row, column) of the triplets with the
  value NaN from which the matrix was set, and \<open>basisvectors\<close> is the matrix set from the
  other triplets. The coefficient at a listed position is NaN, whatever \<open>basisvectors\<close> holds
  there. The only place where SystemOne.cpp brings up a NaN from numbers is the mirror
  coefficient of \<open>addSymmetrizedBasisvectors\<close> below. The sums and products of matrices in
  this theory are those of the complex numbers, so they are meant for a basis in which no
  coefficient is NaN (\<open>basisvectors_nan\<close> is empty).
\<close>

definition basis_coefficient :: "SystemOne \<Rightarrow> nat \<Rightarrow> nat \<Rightarrow> scalar_t option" where
  "basis_coefficient s r c =
     (if (r, c) \<in> set (basisvectors_nan s) then None else Some (coeff (basisvectors s) r c))"

text \<open>
  \<open>basis_coefficient s r c\<close> is the coefficient of the source's \<^verbatim>\<open>basisvectors\<close> in row r
  and column c; \<open>None\<close> is NaN.
\<close>

text \<open>The constructor \<^verbatim>\<open>SystemOne(species, cache)\<close>.\<close>

definition newSystemOne :: "string \<Rightarrow> SystemOne" where
  "newSystemOne sp =
     \<lparr>species = sp, efield = (0, 0, 0), bfield = (0, 0, 0),
      efield_spherical = [], bfield_spherical = [], diamagnetism_terms = [],
      diamagnetism = True, charge = 0, ordermax = 0, distance = double_max,
      sym_reflection = NA, sym_rotation = [ARB],
      interaction_efield = Map.empty, interaction_bfield = Map.empty,
      interaction_diamagnetism = Map.empty, interaction_multipole = Map.empty,
      range_n = [], range_l = [], range_j = [], range_m = [],
      energy_min = double_lowest, energy_max = double_max,
      states = [], states_to_add = [],
      basisvectors = empty_sparse, basisvectors_nan = [],
      hamiltonian = empty_sparse, assembler = Clean\<rparr>"

text \<open>
  Modelled from the spec: \<^verbatim>\<open>onParameterChange\<close> and \<^verbatim>\<open>onSymmetryChange\<close> of SystemBase,
  which is not among the sources: "any field/charge/distance mutator \<rightarrow> ParametersDirty; any
  symmetry mutator \<rightarrow> SymmetryDirty", where SymmetryDirty "supersedes ParametersDirty".
\<close>

definition onParameterChange :: "SystemOne \<Rightarrow> SystemOne" where
  "onParameterChange s =
     s\<lparr>assembler := (if assembler s = SymmetryDirty then SymmetryDirty else ParametersDirty)\<rparr>"

definition onSymmetryChange :: "SystemOne \<Rightarrow> SystemOne" where
  "onSymmetryChange s = s\<lparr>assembler := SymmetryDirty\<rparr>"

section \<open>Field setters\<close>

text \<open>
  The two overloads of \<^verbatim>\<open>changeToSphericalbasis\<close>; the overload taken is the one of the
  build's \<^verbatim>\<open>scalar_t\<close>. An exception is \<open>Inl\<close>.
\<close>

definition changeToSphericalbasis ::
  "scalar_kind \<Rightarrow> real \<times> real \<times> real \<Rightarrow> (int \<times> scalar_t) list \<Rightarrow> error + (int \<times> scalar_t) list" where
  "changeToSphericalbasis k field field_spherical =
     (case field of (x, y, z) \<Rightarrow>
        (case k of
           RealScalar \<Rightarrow>
             if y \<noteq> 0 then Inl ComplexDataTypeNeeded
             else Inr (subscript_set 0 (complex_of_real z)
                        (subscript_set (- 1) (complex_of_real (x / sqrt 2))
                          (subscript_set 1 (complex_of_real (- x / sqrt 2)) field_spherical)))
         | ComplexScalar \<Rightarrow>
             Inr (subscript_set 0 (Complex z 0)
                   (subscript_set (- 1) (Complex (x / sqrt 2) (- y / sqrt 2))
                     (subscript_set 1 (Complex (- x / sqrt 2) (- y / sqrt 2)) field_spherical)))))"

text \<open>
  A member function that may throw returns the exception, if any, together with the
  system as the call leaves it: what was assigned before the throw stays assigned.
\<close>

definition setEfield :: "scalar_kind \<Rightarrow> real \<times> real \<times> real \<Rightarrow> SystemOne \<Rightarrow> error option \<times> SystemOne" where
  "setEfield k field s =
     (let s1 = onParameterChange s;
          s2 = s1\<lparr>efield := field\<rparr>
      in case changeToSphericalbasis k (efield s2) (efield_spherical s2) of
           Inl e \<Rightarrow> (Some e, s2)
         | Inr fs \<Rightarrow> (None, s2\<lparr>efield_spherical := fs\<rparr>))"

definition set_diamagnetism_terms ::
  "(int \<times> scalar_t) list \<Rightarrow> ((int \<times> int) \<times> scalar_t) list \<Rightarrow> ((int \<times> int) \<times> scalar_t) list" where
  "set_diamagnetism_terms b dt =
     (let d1 = subscript_set (0, 0)
                 (subscript_get b 0 * subscript_get b 0 - subscript_get b 1 * subscript_get b (- 1) * 2) dt;
          d2 = subscript_set (2, 0)
                 (subscript_get b 0 * subscript_get b 0 + subscript_get b 1 * subscript_get b (- 1)) d1;
          d3 = subscript_set (2, 1) (subscript_get b 0 * subscript_get b (- 1)) d2;
          d4 = subscript_set (2, - 1) (subscript_get b 0 * subscript_get b 1) d3;
          d5 = subscript_set (2, 2) (subscript_get b (- 1) * subscript_get b (- 1)) d4
      in subscript_set (2, - 2) (subscript_get b 1 * subscript_get b 1) d5)"

definition setBfield :: "scalar_kind \<Rightarrow> real \<times> real \<times> real \<Rightarrow> SystemOne \<Rightarrow> error option \<times> SystemOne" where
  "setBfield k field s =
     (let s1 = onParameterChange s;
          s2 = s1\<lparr>bfield := field\<rparr>
      in case changeToSphericalbasis k (bfield s2) (bfield_spherical s2) of
           Inl e \<Rightarrow> (Some e, s2)
         | Inr fs \<Rightarrow>
             (None, s2\<lparr>bfield_spherical := fs,
                       diamagnetism_terms := set_diamagnetism_terms fs (diamagnetism_terms s2)\<rparr>))"

section \<open>Symmetry setters\<close>

definition isRefelectionAndRotationCompatible :: "SystemOne \<Rightarrow> bool" where
  "isRefelectionAndRotationCompatible s =
     (if ARB \<in> set (sym_rotation s) \<or> sym_reflection s = NA then True
      else list_all (\<lambda>v. - v \<in> set (sym_rotation s)) (sym_rotation s))"

definition setConservedParityUnderReflection :: "parity_t \<Rightarrow> SystemOne \<Rightarrow> error option \<times> SystemOne" where
  "setConservedParityUnderReflection parity s =
     (let s1 = onSymmetryChange s;
          s2 = s1\<lparr>sym_reflection := parity\<rparr>
      in if \<not> isRefelectionAndRotationCompatible s2 then (Some ParityNotCompatible, s2)
         else (None, s2))"

definition setConservedMomentaUnderRotation :: "real list \<Rightarrow> SystemOne \<Rightarrow> error option \<times> SystemOne" where
  "setConservedMomentaUnderRotation momenta s =
     (if ARB \<in> set momenta \<and> length momenta > 1 then (Some ArbWithExplicitMomenta, s)
      else
        let s1 = onSymmetryChange s;
            s2 = s1\<lparr>sym_rotation := momenta\<rparr>
        in if \<not> isRefelectionAndRotationCompatible s2 then (Some MomentaNotCompatible, s2)
           else (None, s2))"

section \<open>Combining two systems\<close>

definition deleteInteraction :: "SystemOne \<Rightarrow> SystemOne" where
  "deleteInteraction s =
     s\<lparr>interaction_efield := Map.empty, interaction_bfield := Map.empty,
       interaction_diamagnetism := Map.empty, interaction_multipole := Map.empty\<rparr>"

text \<open>
  \<open>incorporate s other\<close>: the exception, or the system after the call together with
  whether the warning was printed.
\<close>

definition incorporate :: "SystemOne \<Rightarrow> SystemOne \<Rightarrow> error + (SystemOne \<times> bool)" where
  "incorporate s other =
     (if species s \<noteq> species other then Inl SpeciesDiffer
      else if efield s \<noteq> efield other then Inl EfieldDiffer
      else if bfield s \<noteq> bfield other then Inl BfieldDiffer
      else if diamagnetism s \<noteq> diamagnetism other then Inl DiamagnetismDiffer
      else
        let d1 = (sym_reflection s \<noteq> sym_reflection other);
            s1 = (if d1 then s\<lparr>sym_reflection := NA\<rparr> else s);
            d2 = (\<not> (length (sym_rotation s1) = length (sym_rotation other)
                      \<and> sym_rotation s1 = sym_rotation other));
            s2 = (if d2
                  then (if ARB \<in> set (sym_rotation s1) \<or> ARB \<in> set (sym_rotation other)
                        then s1\<lparr>sym_rotation := [ARB]\<rparr>
                        else s1\<lparr>sym_rotation := set_insert_range (sym_rotation other) (sym_rotation s1)\<rparr>)
                  else s1);
            num_different_symmetries = (if d1 then 1 else 0) + (if d2 then (1::nat) else 0)
        in Inr (deleteInteraction s2, num_different_symmetries > 1))"

section \<open>The external collaborators\<close>

text \<open>
  The matrix-element cache, the selection rules and the physical constants are not among
  the sources (MatrixElementCache.hpp, QuantumDefect, dtypes.hpp); the functions of
  SystemOne.cpp take them as a parameter. \<open>selectionRulesMultipoleNew3\<close> is the overload
  of \<^verbatim>\<open>selectionRulesMultipoleNew\<close> with three arguments. The cache is read only: its
  \<^verbatim>\<open>precalculate...\<close> calls fill it and do not change what it returns.
\<close>

record collaborators =
  getEnergy :: "StateOne \<Rightarrow> real"
  getElectricDipole :: "StateOne \<Rightarrow> StateOne \<Rightarrow> real"
  getMagneticDipole :: "StateOne \<Rightarrow> StateOne \<Rightarrow> real"
  getDiamagnetism :: "StateOne \<Rightarrow> StateOne \<Rightarrow> int \<Rightarrow> real"
  getElectricMultipole :: "StateOne \<Rightarrow> StateOne \<Rightarrow> int \<Rightarrow> real"
  selectionRulesMultipoleNew :: "StateOne \<Rightarrow> StateOne \<Rightarrow> int \<Rightarrow> int \<Rightarrow> bool"
  selectionRulesMultipoleNew3 :: "StateOne \<Rightarrow> StateOne \<Rightarrow> int \<Rightarrow> bool"
  selectionRulesMomentumNew :: "StateOne \<Rightarrow> StateOne \<Rightarrow> int \<Rightarrow> bool"
  electron_rest_mass :: real
  coulombs_constant :: real
  elementary_charge :: real

section \<open>Building the interaction operators\<close>

definition tolerance :: real where
  "tolerance = 1 / 10 ^ 24"


text \<open>The conversion of a \<^verbatim>\<open>float\<close> to \<^verbatim>\<open>int\<close>: towards zero.\<close>

definition float_to_int :: "real \<Rightarrow> int" where
  "float_to_int x = (if 0 \<le> x then \<lfloor>x\<rfloor> else \<lceil>x\<rceil>)"

text \<open>The components and orders for which an operator has to be built.\<close>

definition erange :: "SystemOne \<Rightarrow> int list" where
  "erange s =
     map fst (filter (\<lambda>entry. \<not> fst entry < 0 \<and> cmod (snd entry) > tolerance
                                \<and> interaction_efield s (- fst entry) = None)
                     (efield_spherical s))"

definition brange :: "SystemOne \<Rightarrow> int list" where
  "brange s =
     map fst (filter (\<lambda>entry. \<not> fst entry < 0 \<and> cmod (snd entry) > tolerance
                                \<and> interaction_bfield s (- fst entry) = None)
                     (bfield_spherical s))"

definition drange :: "SystemOne \<Rightarrow> (int \<times> int) list" where
  "drange s =
     map fst (filter (\<lambda>entry. \<not> snd (fst entry) < 0 \<and> diamagnetism s
                                \<and> cmod (snd entry) > tolerance
                                \<and> interaction_diamagnetism s (fst entry) = None)
                     (diamagnetism_terms s))"

definition orange :: "SystemOne \<Rightarrow> int list" where
  "orange s =
     (if charge s \<noteq> 0
      then filter (\<lambda>order. interaction_multipole s order = None) (map int [1..<Suc (ordermax s)])
      else [])"

text \<open>The four maps from a component or order to the triplets collected for it.\<close>

record triplets =
  interaction_efield_triplets :: "int \<Rightarrow> eigen_triplet_t list"
  interaction_bfield_triplets :: "int \<Rightarrow> eigen_triplet_t list"
  interaction_diamagnetism_triplets :: "int \<times> int \<Rightarrow> eigen_triplet_t list"
  interaction_multipole_triplets :: "int \<Rightarrow> eigen_triplet_t list"

definition no_triplets :: triplets where
  "no_triplets =
     \<lparr>interaction_efield_triplets = (\<lambda>i. []), interaction_bfield_triplets = (\<lambda>i. []),
      interaction_diamagnetism_triplets = (\<lambda>i. []), interaction_multipole_triplets = (\<lambda>i. [])\<rparr>"

text \<open>
  The loops over the components, for a row entry r and a column entry c, each an index
  with its state. The loops of the electric and of the magnetic field leave at the first
  component whose selection rule holds (\<^verbatim>\<open>break\<close>).
\<close>

fun efield_loop ::
  "collaborators \<Rightarrow> nat \<times> StateOne \<Rightarrow> nat \<times> StateOne \<Rightarrow> int list \<Rightarrow> triplets \<Rightarrow> triplets" where
  "efield_loop env r c [] T = T"
| "efield_loop env r c (i # is) T =
     (if i = 0 \<and> fst r < fst c then efield_loop env r c is T
      else if selectionRulesMultipoleNew env (snd r) (snd c) 1 i
      then T\<lparr>interaction_efield_triplets :=
               (interaction_efield_triplets T)
                 (i := interaction_efield_triplets T i
                       @ [(fst r, fst c, complex_of_real (getElectricDipole env (snd r) (snd c)))])\<rparr>
      else efield_loop env r c is T)"

fun bfield_loop ::
  "collaborators \<Rightarrow> nat \<times> StateOne \<Rightarrow> nat \<times> StateOne \<Rightarrow> int list \<Rightarrow> triplets \<Rightarrow> triplets" where
  "bfield_loop env r c [] T = T"
| "bfield_loop env r c (i # is) T =
     (if i = 0 \<and> fst r < fst c then bfield_loop env r c is T
      else if selectionRulesMomentumNew env (snd r) (snd c) i
      then T\<lparr>interaction_bfield_triplets :=
               (interaction_bfield_triplets T)
                 (i := interaction_bfield_triplets T i
                       @ [(fst r, fst c, complex_of_real (getMagneticDipole env (snd r) (snd c)))])\<rparr>
      else bfield_loop env r c is T)"

fun diamagnetism_loop ::
  "collaborators \<Rightarrow> nat \<times> StateOne \<Rightarrow> nat \<times> StateOne \<Rightarrow> (int \<times> int) list \<Rightarrow> triplets \<Rightarrow> triplets" where
  "diamagnetism_loop env r c [] T = T"
| "diamagnetism_loop env r c (i # is) T =
     (if snd i = 0 \<and> fst r < fst c then diamagnetism_loop env r c is T
      else if selectionRulesMultipoleNew env (snd r) (snd c) (fst i) (snd i)
      then diamagnetism_loop env r c is
             (T\<lparr>interaction_diamagnetism_triplets :=
                  (interaction_diamagnetism_triplets T)
                    (i := interaction_diamagnetism_triplets T i
                          @ [(fst r, fst c,
                              complex_of_real (1 / (8 * electron_rest_mass env)
                                               * getDiamagnetism env (snd r) (snd c) (fst i)))])\<rparr>)
      else diamagnetism_loop env r c is T)"

fun multipole_loop ::
  "collaborators \<Rightarrow> nat \<times> StateOne \<Rightarrow> nat \<times> StateOne \<Rightarrow> int list \<Rightarrow> triplets \<Rightarrow> triplets" where
  "multipole_loop env r c [] T = T"
| "multipole_loop env r c (order # os) T =
     (if selectionRulesMultipoleNew3 env (snd r) (snd c) order
      then multipole_loop env r c os
             (T\<lparr>interaction_multipole_triplets :=
                  (interaction_multipole_triplets T)
                    (order := interaction_multipole_triplets T order
                          @ [(fst r, fst c,
                              complex_of_real (- coulombs_constant env * elementary_charge env
                                               * getElectricMultipole env (snd r) (snd c) order))])\<rparr>)
      else multipole_loop env r c os T)"

text \<open>The body of the inner loop, for the column entry c and the row entry r.\<close>

definition row_entry ::
  "collaborators \<Rightarrow> SystemOne \<Rightarrow> nat \<times> StateOne \<Rightarrow> nat \<times> StateOne \<Rightarrow> triplets \<Rightarrow> triplets" where
  "row_entry env s c r T =
     (if isArtificial (snd r) then T
      else
        let T1 = efield_loop env r c (erange s) T;
            T2 = bfield_loop env r c (brange s) T1;
            T3 = diamagnetism_loop env r c (drange s) T2
        in if charge s \<noteq> 0
           then (if float_to_int (getM (snd r) - getM (snd c)) = 0
                 then multipole_loop env r c (orange s) T3 else T3)
           else T3)"

text \<open>The body of the outer loop, for the column entry c.\<close>

definition column_entry ::
  "collaborators \<Rightarrow> SystemOne \<Rightarrow> nat \<times> StateOne \<Rightarrow> triplets \<Rightarrow> triplets" where
  "column_entry env s c T =
     (if isArtificial (snd c) then T
      else fold (row_entry env s c) (enumerate 0 (states s)) T)"

definition interaction_triplets :: "collaborators \<Rightarrow> SystemOne \<Rightarrow> triplets" where
  "interaction_triplets env s = fold (column_entry env s) (enumerate 0 (states s)) no_triplets"




section \<open>Adding the interaction to the Hamiltonian\<close>

text \<open>
  One statement of \<^verbatim>\<open>addInteraction\<close> for the electric field,
  \<^verbatim>\<open>if (std::abs(efield_spherical[kc]) > tolerance) hamiltonian -= interaction_efield[kop] * efield_spherical[kc]\<close>
  (or \<^verbatim>\<open>+=\<close>), with the insertions that \<^verbatim>\<open>operator[]\<close> makes for a missing key; then the
  same for the magnetic field and for the diamagnetic terms with their factor.
\<close>

definition efield_term :: "bool \<Rightarrow> int \<Rightarrow> int \<Rightarrow> SystemOne \<Rightarrow> SystemOne" where
  "efield_term subtract kop kc s =
     (let s1 = s\<lparr>efield_spherical := subscript_touch kc (efield_spherical s)\<rparr>
      in if cmod (subscript_get (efield_spherical s1) kc) > tolerance
         then
           let s2 = s1\<lparr>interaction_efield := cache_touch kop (interaction_efield s1)\<rparr>;
               term = mat_scale (subscript_get (efield_spherical s2) kc)
                        (cache_get (interaction_efield s2) kop)
           in s2\<lparr>hamiltonian := (if subtract then mat_sub else mat_add) (hamiltonian s2) term\<rparr>
         else s1)"

definition bfield_term :: "bool \<Rightarrow> int \<Rightarrow> int \<Rightarrow> SystemOne \<Rightarrow> SystemOne" where
  "bfield_term subtract kop kc s =
     (let s1 = s\<lparr>bfield_spherical := subscript_touch kc (bfield_spherical s)\<rparr>
      in if cmod (subscript_get (bfield_spherical s1) kc) > tolerance
         then
           let s2 = s1\<lparr>interaction_bfield := cache_touch kop (interaction_bfield s1)\<rparr>;
               term = mat_scale (subscript_get (bfield_spherical s2) kc)
                        (cache_get (interaction_bfield s2) kop)
           in s2\<lparr>hamiltonian := (if subtract then mat_sub else mat_add) (hamiltonian s2) term\<rparr>
         else s1)"

definition diamagnetism_term :: "bool \<Rightarrow> int \<times> int \<Rightarrow> real \<Rightarrow> SystemOne \<Rightarrow> SystemOne" where
  "diamagnetism_term subtract k factor s =
     (if \<not> diamagnetism s then s
      else
        let s1 = s\<lparr>diamagnetism_terms := subscript_touch k (diamagnetism_terms s)\<rparr>
        in if cmod (subscript_get (diamagnetism_terms s1) k) > tolerance
           then
             let s2 = s1\<lparr>interaction_diamagnetism := cache_touch k (interaction_diamagnetism s1)\<rparr>;
                 term = mat_scale (subscript_get (diamagnetism_terms s2) k * complex_of_real factor)
                          (cache_get (interaction_diamagnetism s2) k)
             in s2\<lparr>hamiltonian := (if subtract then mat_sub else mat_add) (hamiltonian s2) term\<rparr>
           else s1)"

text \<open>
  The body of the loop over the orders. The source divides by a power of the distance;
  for a distance of zero that is an infinite factor, which the reals do not have (there
  1 / 0 is 0), so the model is meant for a distance that is not zero, and what is proved
  below of the multipole terms has that hypothesis.
\<close>

definition multipole_term :: "nat \<Rightarrow> SystemOne \<Rightarrow> SystemOne" where
  "multipole_term order s =
     (let powerlaw = 1 / distance s ^ (order + 1);
          s1 = s\<lparr>interaction_multipole := cache_touch (int order) (interaction_multipole s)\<rparr>
      in s1\<lparr>hamiltonian :=
              mat_add (hamiltonian s1)
                (mat_scale (complex_of_real (real_of_int (charge s1) * powerlaw))
                   (cache_get (interaction_multipole s1) (int order)))\<rparr>)"

definition multipole_terms :: "SystemOne \<Rightarrow> SystemOne" where
  "multipole_terms s =
     (if charge s \<noteq> 0 \<and> distance s \<noteq> double_max
      then fold multipole_term [1..<Suc (ordermax s)] s
      else s)"

definition addInteraction :: "SystemOne \<Rightarrow> SystemOne" where
  "addInteraction s =
     multipole_terms
      (diamagnetism_term True (2, - 2) (sqrt (3 / 2))
      (diamagnetism_term True (2, 2) (sqrt (3 / 2))
      (diamagnetism_term False (2, - 1) (sqrt 3)
      (diamagnetism_term False (2, 1) (sqrt 3)
      (diamagnetism_term True (2, 0) 1
      (diamagnetism_term False (0, 0) 1
      (bfield_term False (- 1) 1
      (bfield_term False 1 (- 1)
      (bfield_term True 0 0
      (efield_term False (- 1) 1
      (efield_term False 1 (- 1)
      (efield_term True 0 0 s))))))))))))"

section \<open>Building the basis\<close>

text \<open>
  Modelled from the spec: \<^verbatim>\<open>utils::imaginary_unit<scalar_t>()\<close> of utils.hpp, which is
  not among the sources, for the complex build. The basis build below uses it for the
  mirror coefficient, so where reflection symmetry is in use it is the build with complex
  scalars that is modelled.
\<close>

definition imaginary_unit :: scalar_t where
  "imaginary_unit = \<i>"

text \<open>
  \<^verbatim>\<open>std::pow(-1, x)\<close> for a floating-point exponent: 1 or -1 when x is an integer, and
  a domain error otherwise: the call then returns NaN and raises no exception, and the
  build goes on with it. \<open>None\<close> is NaN.
\<close>

definition std_pow_minus_one :: "real \<Rightarrow> scalar_t option" where
  "std_pow_minus_one x =
     (if x = real_of_int \<lfloor>x\<rfloor> then Some (if even \<lfloor>x\<rfloor> then 1 else - 1) else None)"

text \<open>
  Modelled from the spec: \<^verbatim>\<open>SystemBase::range\<close> and \<^verbatim>\<open>SystemBase::checkIsEnergyValid\<close>;
  SystemBase.hpp is not among the sources. The spec has "l \<in> [0, n-1], j \<in> [|l-s|, l+s],
  m \<in> [-j, j]" for the ranges, which go up in steps of one from the lower end, and
  "states outside the energy window [min, max] are dropped", a side of the window being
  open when it holds the extreme value of a double.
\<close>

definition range_int :: "int \<Rightarrow> int \<Rightarrow> int list" where
  "range_int lo hi = [lo..hi]"

definition range_float :: "real \<Rightarrow> real \<Rightarrow> real list" where
  "range_float lo hi = map (\<lambda>k. lo + real k) [0..<nat (\<lfloor>hi - lo\<rfloor> + 1)]"

definition checkIsEnergyValid :: "SystemOne \<Rightarrow> real \<Rightarrow> bool" where
  "checkIsEnergyValid s e =
     ((energy_min s \<le> e \<or> energy_min s = double_lowest)
      \<and> (e \<le> energy_max s \<or> energy_max s = double_max))"

text \<open>
  The spin taken from the last character of the species. \<^verbatim>\<open>species.back()\<close> of an
  empty string is undefined in C++; the model takes the default spin then.
\<close>

definition isdigit :: "char \<Rightarrow> bool" where
  "isdigit ch = (ch \<in> set ''0123456789'')"

definition spin_of_species :: "string \<Rightarrow> real" where
  "spin_of_species sp =
     (if sp \<noteq> [] \<and> isdigit (last sp)
      then real_of_int ((int (of_char (last sp)) - int (of_char CHR ''0'')) - 1) / 2
      else 1 / 2)"

text \<open>
  The state of the build: the registry \<^verbatim>\<open>states\<close> (a member of the system, so that
  what is registered before an exception stays registered) and the locals \<^verbatim>\<open>idx\<close>,
  \<^verbatim>\<open>basisvectors_triplets\<close>, \<^verbatim>\<open>hamiltonian_triplets\<close>. The value of a triplet of the
  basis is a \<open>coefficient\<close>: a number, or NaN (\<open>None\<close>). The energies of the Hamiltonian
  come from the cache and are numbers.
\<close>

type_synonym coefficient = "scalar_t option"

type_synonym basis_triplet_t = "nat \<times> nat \<times> coefficient"

record basis_build =
  b_states :: "StateOne list"
  b_idx :: nat
  basisvectors_triplets :: "basis_triplet_t list"
  hamiltonian_triplets :: "eigen_triplet_t list"

text \<open>\<^verbatim>\<open>states.get<1>().find(state)\<close>: the index of the entry that holds the state.\<close>

fun state_index :: "StateOne \<Rightarrow> StateOne list \<Rightarrow> nat option" where
  "state_index st [] = None"
| "state_index st (x # xs) = (if x = st then Some 0 else map_option Suc (state_index st xs))"

definition addBasisvectors :: "StateOne \<Rightarrow> nat \<Rightarrow> coefficient \<Rightarrow> basis_build \<Rightarrow> basis_build" where
  "addBasisvectors st idx val b =
     (case state_index st (b_states b) of
        Some row \<Rightarrow> b\<lparr>basisvectors_triplets := basisvectors_triplets b @ [(row, idx, val)]\<rparr>
      | None \<Rightarrow>
          b\<lparr>b_states := b_states b @ [st],
            basisvectors_triplets := basisvectors_triplets b @ [(length (b_states b), idx, val)]\<rparr>)"

text \<open>
  \<open>addSymmetrizedBasisvectors\<close> throws nothing. Where reflection symmetry is in use and m
  is not zero, \<^verbatim>\<open>value\<close> is 1/sqrt 2 for the state itself and is then multiplied by
  \<^verbatim>\<open>std::pow(-1, l + m - j)\<close>, by the imaginary unit and by the sign of the parity for the
  mirror state; a product with NaN is NaN.
\<close>

definition addSymmetrizedBasisvectors ::
  "StateOne \<Rightarrow> real \<Rightarrow> parity_t \<Rightarrow> basis_build \<Rightarrow> basis_build" where
  "addSymmetrizedBasisvectors st energy sym_reflection_local b =
     (if sym_reflection_local \<noteq> NA \<and> getM st \<noteq> 0 \<and> getM st < 0 then b
      else
        let b1 = b\<lparr>hamiltonian_triplets :=
                     hamiltonian_triplets b @ [(b_idx b, b_idx b, complex_of_real energy)]\<rparr>;
            val = (if sym_reflection_local \<noteq> NA \<and> getM st \<noteq> 0
                   then 1 / complex_of_real (sqrt 2) else 1);
            b2 = addBasisvectors st (b_idx b1) (Some val) b1;
            b3 = (if sym_reflection_local \<noteq> NA \<and> getM st \<noteq> 0
                  then
                    let val2 = map_option
                                 (\<lambda>p. val * (p * imaginary_unit)
                                        * (if sym_reflection_local = EVEN then 1 else - 1))
                                 (std_pow_minus_one (real_of_int (getL st) + getM st - getJ st))
                    in addBasisvectors (getReflected st) (b_idx b2) val2 b2
                  else b2)
        in b3\<lparr>b_idx := b_idx b3 + 1\<rparr>)"

text \<open>
  A range-based \<^verbatim>\<open>for\<close> whose body may throw: the loop ends at the first exception.
  A \<^verbatim>\<open>continue\<close> is a body that returns the state as it is.
\<close>

fun foreach :: "'a list \<Rightarrow> ('a \<Rightarrow> 'st \<Rightarrow> error option \<times> 'st) \<Rightarrow> 'st \<Rightarrow> error option \<times> 'st" where
  "foreach [] body st = (None, st)"
| "foreach (x # xs) body st =
     (case body x st of
        (Some e, st') \<Rightarrow> (Some e, st')
      | (None, st') \<Rightarrow> foreach xs body st')"

text \<open>The bodies of the four nested loops over the quantum numbers, innermost first.\<close>

definition m_body ::
  "SystemOne \<Rightarrow> int \<Rightarrow> int \<Rightarrow> real \<Rightarrow> real \<Rightarrow> real list \<Rightarrow> real \<Rightarrow> basis_build
     \<Rightarrow> error option \<times> basis_build" where
  "m_body s n l j energy range_allowed_m m b =
     (if \<bar>m\<bar> > j then (None, b)
      else
        let state = mkStateOne (species s) n l j m
        in if sym_reflection s \<noteq> NA \<and> getM state \<noteq> 0 \<and> - getM state \<notin> set range_allowed_m
           then (Some (MomentumNotFound (- getM state)), b)
           else (None, addSymmetrizedBasisvectors state energy (sym_reflection s) b))"

definition j_body ::
  "collaborators \<Rightarrow> SystemOne \<Rightarrow> real \<Rightarrow> int \<Rightarrow> int \<Rightarrow> real \<Rightarrow> basis_build
     \<Rightarrow> error option \<times> basis_build" where
  "j_body env s spin n l j b =
     (if \<bar>j - real_of_int l\<bar> > spin \<or> j < 0 then (None, b)
      else
        let energy = getEnergy env (mkStateOne (species s) n l j spin)
        in if \<not> checkIsEnergyValid s energy then (None, b)
           else
             let range_adapted_m = (if range_m s = [] then range_float (- j) j else range_m s);
                 range_allowed_m =
                   (if ARB \<notin> set (sym_rotation s)
                    then filter (\<lambda>x. x \<in> set range_adapted_m) (sym_rotation s)
                    else range_adapted_m)
             in foreach range_allowed_m (m_body s n l j energy range_allowed_m) b)"

definition l_body ::
  "collaborators \<Rightarrow> SystemOne \<Rightarrow> real \<Rightarrow> int \<Rightarrow> int \<Rightarrow> basis_build \<Rightarrow> error option \<times> basis_build" where
  "l_body env s spin n l b =
     (if l > n - 1 \<or> l < 0 then (None, b)
      else
        let range_adapted_j =
              (if range_j s = []
               then range_float \<bar>real_of_int l - spin\<bar> (real_of_int l + spin)
               else range_j s)
        in foreach range_adapted_j (j_body env s spin n l) b)"

definition n_body ::
  "collaborators \<Rightarrow> SystemOne \<Rightarrow> real \<Rightarrow> int \<Rightarrow> basis_build \<Rightarrow> error option \<times> basis_build" where
  "n_body env s spin n b =
     (let range_adapted_l = (if range_l s = [] then range_int 0 (n - 1) else range_l s)
      in foreach range_adapted_l (l_body env s spin n) b)"

text \<open>The bodies of the two loops over the user-defined states.\<close>

definition check_body :: "SystemOne \<Rightarrow> StateOne \<Rightarrow> basis_build \<Rightarrow> error option \<times> basis_build" where
  "check_body s state b =
     (if state \<in> set (b_states b) then (Some (StateAlreadyContained state), b)
      else if \<not> isArtificial state \<and> getSpecies state \<noteq> species s
      then (Some (StateWrongSpecies state), b)
      else (None, b))"

definition user_body ::
  "collaborators \<Rightarrow> SystemOne \<Rightarrow> StateOne \<Rightarrow> basis_build \<Rightarrow> error option \<times> basis_build" where
  "user_body env s state b =
     (let energy = (if isArtificial state then 0 else getEnergy env state);
          sym_reflection_local = (if isArtificial state then NA else sym_reflection s);
          sym_rotation_local = (if isArtificial state then [ARB] else sym_rotation s)
      in if ARB \<notin> set sym_rotation_local \<and> getM state \<notin> set sym_rotation_local then (None, b)
         else if sym_reflection_local \<noteq> NA \<and> getM state \<noteq> 0
                 \<and> getReflected state \<notin> set (states_to_add s)
         then (Some (ReflectedStateNotFound (getReflected state)), b)
         else (None, addSymmetrizedBasisvectors state energy sym_reflection_local b))"

text \<open>
  \<open>initializeBasis\<close>: the exception, if any, and the system as the call leaves it. The
  warning that the source prints for an artificial state under a symmetry changes nothing
  and is left out. At the end \<^verbatim>\<open>basisvectors\<close> is set from the triplets: the triplets whose
  value is a number give the matrix \<open>basisvectors\<close> (\<open>number_triplets\<close>), those whose value
  is NaN the positions \<open>basisvectors_nan\<close> (\<open>nan_positions\<close>).
\<close>

fun number_triplets :: "basis_triplet_t list \<Rightarrow> eigen_triplet_t list" where
  "number_triplets [] = []"
| "number_triplets ((r, c, Some v) # ts) = (r, c, v) # number_triplets ts"
| "number_triplets ((r, c, None) # ts) = number_triplets ts"

fun nan_positions :: "basis_triplet_t list \<Rightarrow> (nat \<times> nat) list" where
  "nan_positions [] = []"
| "nan_positions ((r, c, Some v) # ts) = nan_positions ts"
| "nan_positions ((r, c, None) # ts) = (r, c) # nan_positions ts"

definition build_start :: "SystemOne \<Rightarrow> basis_build" where
  "build_start s =
     \<lparr>b_states = states s, b_idx = 0, basisvectors_triplets = [], hamiltonian_triplets = []\<rparr>"

definition build_data :: "SystemOne \<Rightarrow> basis_build \<Rightarrow> SystemOne" where
  "build_data s b =
     s\<lparr>states := b_states b,
       basisvectors :=
         setFromTriplets (length (b_states b)) (b_idx b) (number_triplets (basisvectors_triplets b)),
       basisvectors_nan := nan_positions (basisvectors_triplets b),
       hamiltonian := setFromTriplets (b_idx b) (b_idx b) (hamiltonian_triplets b)\<rparr>"

text \<open>The loop over the specified quantum numbers, from the start of the build.\<close>

definition enumeration :: "collaborators \<Rightarrow> SystemOne \<Rightarrow> error option \<times> basis_build" where
  "enumeration env s =
     foreach (range_n s) (n_body env s (spin_of_species (species s))) (build_start s)"

definition initializeBasis :: "collaborators \<Rightarrow> SystemOne \<Rightarrow> error option \<times> SystemOne" where
  "initializeBasis env s =
     (if range_n s = [] \<and> (energy_min s = double_lowest \<or> energy_max s = double_max)
      then (Some BasisInfinite, s)
      else if range_n s = [] then (Some RangeNNotImplemented, s)
      else
        (case enumeration env s of
           (Some e, b) \<Rightarrow> (Some e, s\<lparr>states := b_states b\<rparr>)
         | (None, b) \<Rightarrow>
             (case foreach (states_to_add s) (check_body s) b of
                (Some e, b1) \<Rightarrow> (Some e, s\<lparr>states := b_states b1\<rparr>)
              | (None, b1) \<Rightarrow>
                  (case foreach (states_to_add s) (user_body env s) b1 of
                     (Some e, b2) \<Rightarrow> (Some e, s\<lparr>states := b_states b2\<rparr>)
                   | (None, b2) \<Rightarrow> (None, build_data s b2)))))"


section \<open>Definitions that follow the specification's words\<close>

text \<open>
  The compatibility of a reflection parity and a set of conserved momenta as the
  specification words it: the parity is unset, or the set is the unrestricted sentinel, or
  with every kept value v the value -v is kept.
\<close>

definition spec_compatible :: "parity_t \<Rightarrow> real list \<Rightarrow> bool" where
  "spec_compatible parity momenta =
     (parity = NA \<or> momenta = [ARB] \<or> (\<forall>v \<in> set momenta. - v \<in> set momenta))"

section \<open>Auxiliary notions for the proofs\<close>

text \<open>
  A coefficient as it enters the sum of \<open>addInteraction\<close>: zero when it does not exceed the
  tolerance; and a term with the sign of its statement.
\<close>

definition gated :: "scalar_t \<Rightarrow> scalar_t" where
  "gated x = (if cmod x > tolerance then x else 0)"

definition signed :: "bool \<Rightarrow> scalar_t \<Rightarrow> scalar_t" where
  "signed subtract x = (if subtract then - x else x)"

text \<open>
  Two systems in which \<open>addInteraction\<close> reads the same coefficients, operators and
  parameters.
\<close>

definition same_inputs :: "SystemOne \<Rightarrow> SystemOne \<Rightarrow> bool" where
  "same_inputs s s' =
     ((\<forall>k. subscript_get (efield_spherical s') k = subscript_get (efield_spherical s) k) \<and>
      (\<forall>k. subscript_get (bfield_spherical s') k = subscript_get (bfield_spherical s) k) \<and>
      (\<forall>k. subscript_get (diamagnetism_terms s') k = subscript_get (diamagnetism_terms s) k) \<and>
      (\<forall>k. cache_get (interaction_efield s') k = cache_get (interaction_efield s) k) \<and>
      (\<forall>k. cache_get (interaction_bfield s') k = cache_get (interaction_bfield s) k) \<and>
      (\<forall>k. cache_get (interaction_diamagnetism s') k = cache_get (interaction_diamagnetism s) k) \<and>
      (\<forall>k. cache_get (interaction_multipole s') k = cache_get (interaction_multipole s) k) \<and>
      diamagnetism s' = diamagnetism s \<and> charge s' = charge s \<and> distance s' = distance s \<and>
      ordermax s' = ordermax s \<and>
      rows (hamiltonian s') = rows (hamiltonian s) \<and> cols (hamiltonian s') = cols (hamiltonian s))"

text \<open>
  For the loop over the pairs of states: the test that a component passes, the triplet
  that is appended, and what the body of the inner loop appends for the component or
  order k.
\<close>

definition efield_guard :: "collaborators \<Rightarrow> nat \<times> StateOne \<Rightarrow> nat \<times> StateOne \<Rightarrow> int \<Rightarrow> bool" where
  "efield_guard env r c i =
     (\<not> (i = 0 \<and> fst r < fst c) \<and> selectionRulesMultipoleNew env (snd r) (snd c) 1 i)"

definition bfield_guard :: "collaborators \<Rightarrow> nat \<times> StateOne \<Rightarrow> nat \<times> StateOne \<Rightarrow> int \<Rightarrow> bool" where
  "bfield_guard env r c i =
     (\<not> (i = 0 \<and> fst r < fst c) \<and> selectionRulesMomentumNew env (snd r) (snd c) i)"

definition diamagnetism_guard ::
  "collaborators \<Rightarrow> nat \<times> StateOne \<Rightarrow> nat \<times> StateOne \<Rightarrow> int \<times> int \<Rightarrow> bool" where
  "diamagnetism_guard env r c i =
     (\<not> (snd i = 0 \<and> fst r < fst c) \<and> selectionRulesMultipoleNew env (snd r) (snd c) (fst i) (snd i))"

definition efield_triplet :: "collaborators \<Rightarrow> nat \<times> StateOne \<Rightarrow> nat \<times> StateOne \<Rightarrow> eigen_triplet_t" where
  "efield_triplet env r c = (fst r, fst c, complex_of_real (getElectricDipole env (snd r) (snd c)))"

definition bfield_triplet :: "collaborators \<Rightarrow> nat \<times> StateOne \<Rightarrow> nat \<times> StateOne \<Rightarrow> eigen_triplet_t" where
  "bfield_triplet env r c = (fst r, fst c, complex_of_real (getMagneticDipole env (snd r) (snd c)))"

definition diamagnetism_triplet ::
  "collaborators \<Rightarrow> nat \<times> StateOne \<Rightarrow> nat \<times> StateOne \<Rightarrow> int \<times> int \<Rightarrow> eigen_triplet_t" where
  "diamagnetism_triplet env r c i =
     (fst r, fst c,
      complex_of_real (1 / (8 * electron_rest_mass env) * getDiamagnetism env (snd r) (snd c) (fst i)))"

definition multipole_triplet ::
  "collaborators \<Rightarrow> nat \<times> StateOne \<Rightarrow> nat \<times> StateOne \<Rightarrow> int \<Rightarrow> eigen_triplet_t" where
  "multipole_triplet env r c order =
     (fst r, fst c,
      complex_of_real (- coulombs_constant env * elementary_charge env
                       * getElectricMultipole env (snd r) (snd c) order))"

definition efield_emit ::
  "collaborators \<Rightarrow> SystemOne \<Rightarrow> int \<Rightarrow> nat \<times> StateOne \<Rightarrow> nat \<times> StateOne \<Rightarrow> eigen_triplet_t list" where
  "efield_emit env s k c r =
     (if \<not> isArtificial (snd r) \<and> find (efield_guard env r c) (erange s) = Some k
      then [efield_triplet env r c] else [])"

definition bfield_emit ::
  "collaborators \<Rightarrow> SystemOne \<Rightarrow> int \<Rightarrow> nat \<times> StateOne \<Rightarrow> nat \<times> StateOne \<Rightarrow> eigen_triplet_t list" where
  "bfield_emit env s k c r =
     (if \<not> isArtificial (snd r) \<and> find (bfield_guard env r c) (brange s) = Some k
      then [bfield_triplet env r c] else [])"

definition diamagnetism_emit ::
  "collaborators \<Rightarrow> SystemOne \<Rightarrow> int \<times> int \<Rightarrow> nat \<times> StateOne \<Rightarrow> nat \<times> StateOne \<Rightarrow> eigen_triplet_t list" where
  "diamagnetism_emit env s k c r =
     (if isArtificial (snd r) then []
      else map (diamagnetism_triplet env r c)
             (filter (\<lambda>i. i = k \<and> diamagnetism_guard env r c i) (drange s)))"

definition multipole_emit ::
  "collaborators \<Rightarrow> SystemOne \<Rightarrow> int \<Rightarrow> nat \<times> StateOne \<Rightarrow> nat \<times> StateOne \<Rightarrow> eigen_triplet_t list" where
  "multipole_emit env s k c r =
     (if isArtificial (snd r) \<or> charge s = 0 \<or> float_to_int (getM (snd r) - getM (snd c)) \<noteq> 0
      then []
      else map (multipole_triplet env r c)
             (filter (\<lambda>i. i = k \<and> selectionRulesMultipoleNew3 env (snd r) (snd c) i) (orange s)))"

text \<open>A property of the build that every call of \<open>addSymmetrizedBasisvectors\<close> keeps.\<close>

definition preserved :: "(basis_build \<Rightarrow> bool) \<Rightarrow> bool" where
  "preserved P = (\<forall>st energy par b. P b \<longrightarrow> P (addSymmetrizedBasisvectors st energy par b))"

text \<open>
  The triplets of one column of the basis: one triplet with the value 1, or two triplets in
  different rows whose states are mirror partners, the first with a value of modulus
  1/sqrt 2 and the second with a value that is NaN or has the modulus 1/sqrt 2.
  \<open>basis_inv\<close> is the invariant of the build: the registry holds no state twice, no triplet
  lies in a column that is not finished, and every finished column is as described.
\<close>

definition column_ok :: "StateOne list \<Rightarrow> nat \<Rightarrow> basis_triplet_t list \<Rightarrow> bool" where
  "column_ok sts c ts =
     ((\<exists>r. r < length sts \<and> ts = [(r, c, Some 1)]) \<or>
      (\<exists>r r' v v'. r < length sts \<and> r' < length sts \<and> ts = [(r, c, Some v), (r', c, v')] \<and> r \<noteq> r'
          \<and> cmod v = 1 / sqrt 2 \<and> (v' = None \<or> map_option cmod v' = Some (1 / sqrt 2))
          \<and> sts ! r' = getReflected (sts ! r)))"

definition basis_inv :: "basis_build \<Rightarrow> bool" where
  "basis_inv b =
     (distinct (b_states b) \<and>
      (\<forall>t \<in> set (basisvectors_triplets b). fst (snd t) < b_idx b) \<and>
      (\<forall>c < b_idx b.
          column_ok (b_states b) c (filter (\<lambda>t. fst (snd t) = c) (basisvectors_triplets b))))"

text \<open>
  A further invariant of the build: if a triplet of the basis has the value NaN, then a
  registered state has an exponent l + m - j that is not an integer.
\<close>

definition nan_traced :: "basis_build \<Rightarrow> bool" where
  "nan_traced b =
     (nan_positions (basisvectors_triplets b) = []
      \<or> (\<exists>st \<in> set (b_states b). real_of_int (getL st) + getM st - getJ st \<notin> \<int>))"

text \<open>
  For the user-defined states: whether the rotation symmetry keeps a state (an artificial
  state is always kept), and whether a state needs its mirror partner among the user-defined
  states.
\<close>

definition kept_by_rotation :: "SystemOne \<Rightarrow> StateOne \<Rightarrow> bool" where
  "kept_by_rotation s st =
     (isArtificial st \<or> ARB \<in> set (sym_rotation s) \<or> getM st \<in> set (sym_rotation s))"

definition needs_partner :: "SystemOne \<Rightarrow> StateOne \<Rightarrow> bool" where
  "needs_partner s st = (\<not> isArtificial st \<and> sym_reflection s \<noteq> NA \<and> getM st \<noteq> 0)"

section \<open>Concrete systems and collaborators\<close>

text \<open>Two systems that differ in both symmetries.\<close>

definition sysA :: SystemOne where
  "sysA = (newSystemOne ''Rb'')\<lparr>sym_reflection := EVEN, sym_rotation := [- 1, 1]\<rparr>"

definition sysB :: SystemOne where
  "sysB = (newSystemOne ''Rb'')\<lparr>sym_reflection := ODD, sym_rotation := [0]\<rparr>"

text \<open>
  A system with one state, the electric field (0, 0, 1), a field-free Hamiltonian and
  the operator of the component 0 of the electric field in its cache.
\<close>

definition one_by_one :: "scalar_t \<Rightarrow> eigen_sparse_t" where
  "one_by_one v = setFromTriplets 1 1 [(0, 0, v)]"

definition sysE :: SystemOne where
  "sysE = (snd (setEfield RealScalar (0, 0, 1) (newSystemOne ''Rb'')))
            \<lparr>states := [mkStateOne ''Rb'' 5 0 (1 / 2) (1 / 2)],
             basisvectors := one_by_one 1,
             hamiltonian := one_by_one 5,
             interaction_efield := [0 \<mapsto> one_by_one 1]\<rparr>"

text \<open>
  The same system with an ion of charge 1 at the distance 2, and the operators of the
  multipole orders 1 and 2 in the cache.
\<close>

definition sysM :: SystemOne where
  "sysM = sysE\<lparr>charge := 1, ordermax := 2, distance := 2,
               interaction_multipole := [1 \<mapsto> one_by_one 1, 2 \<mapsto> one_by_one 8]\<rparr>"

text \<open>
  Two physical states, the electric and the magnetic field (1, 0, 1), an ion of charge 1,
  and collaborators whose selection rule is the one of the magnetic quantum number,
  m(row) - m(column) = q, with every matrix element 1.
\<close>

definition identity2 :: eigen_sparse_t where
  "identity2 = setFromTriplets 2 2 [(0, 0, 1), (1, 1, 1)]"

definition envD :: collaborators where
  "envD = \<lparr>getEnergy = (\<lambda>st. 0), getElectricDipole = (\<lambda>r c. 1), getMagneticDipole = (\<lambda>r c. 1),
           getDiamagnetism = (\<lambda>r c k. 1), getElectricMultipole = (\<lambda>r c k. 1),
           selectionRulesMultipoleNew = (\<lambda>r c kappa q. getM r - getM c = real_of_int q),
           selectionRulesMultipoleNew3 = (\<lambda>r c kappa. True),
           selectionRulesMomentumNew = (\<lambda>r c q. getM r - getM c = real_of_int q),
           electron_rest_mass = 1, coulombs_constant = 1, elementary_charge = 1\<rparr>"

definition sysD :: SystemOne where
  "sysD = (snd (setBfield RealScalar (1, 0, 1) (snd (setEfield RealScalar (1, 0, 1) (newSystemOne ''Rb'')))))
            \<lparr>charge := 1, ordermax := 1, distance := 1,
             states := [mkStateOne ''Rb'' 5 0 (1 / 2) (- 1 / 2), mkStateOne ''Rb'' 5 0 (1 / 2) (1 / 2)],
             basisvectors := identity2,
             hamiltonian := setFromTriplets 2 2 []\<rparr>"

text \<open>
  An artificial and a physical state, the electric field (0, 0, 1), and collaborators whose
  selection rules hold for every pair.
\<close>

definition envP :: collaborators where
  "envP = \<lparr>getEnergy = (\<lambda>st. 0), getElectricDipole = (\<lambda>r c. 1), getMagneticDipole = (\<lambda>r c. 1),
           getDiamagnetism = (\<lambda>r c k. 1), getElectricMultipole = (\<lambda>r c k. 1),
           selectionRulesMultipoleNew = (\<lambda>r c kappa q. True),
           selectionRulesMultipoleNew3 = (\<lambda>r c kappa. True),
           selectionRulesMomentumNew = (\<lambda>r c q. True),
           electron_rest_mass = 1, coulombs_constant = 1, elementary_charge = 1\<rparr>"

definition artificial_state :: StateOne where
  "artificial_state =
     \<lparr>getSpecies = ''G'', getN = 0, getL = 0, getJ = 0, getM = 0, isArtificial = True\<rparr>"

definition sysP :: SystemOne where
  "sysP = (snd (setEfield RealScalar (0, 0, 1) (newSystemOne ''Rb'')))
            \<lparr>states := [artificial_state, mkStateOne ''Rb'' 5 0 (1 / 2) (1 / 2)],
             basisvectors := identity2,
             hamiltonian := setFromTriplets 2 2 []\<rparr>"

text \<open>A fresh system with a finite energy window and no restriction on n.\<close>

definition sysN :: SystemOne where
  "sysN = (newSystemOne ''Rb'')\<lparr>energy_min := - 1, energy_max := 1\<rparr>"

text \<open>
  Systems whose enumeration yields nothing (n = 1 with l = 5) and which have one
  user-defined state with m = 3/2 and no mirror partner: with even reflection parity and
  conserved momenta {-1/2, 1/2} (\<open>sysU\<close>), with even parity and unrestricted momenta
  (\<open>sysV\<close>), and without symmetries (\<open>sysX\<close>).
\<close>

definition user_state :: StateOne where
  "user_state = mkStateOne ''Rb'' 5 1 (3 / 2) (3 / 2)"

definition sysU :: SystemOne where
  "sysU = (newSystemOne ''Rb'')
            \<lparr>range_n := [1], range_l := [5], sym_reflection := EVEN, sym_rotation := [- 1 / 2, 1 / 2],
             states_to_add := [user_state]\<rparr>"

definition sysV :: SystemOne where
  "sysV = sysU\<lparr>sym_rotation := [ARB]\<rparr>"

definition sysX :: SystemOne where
  "sysX = sysU\<lparr>sym_reflection := NA, sym_rotation := [ARB]\<rparr>"

text \<open>
  A system without symmetries whose enumeration yields one state (n = 5, l = 0, j = 1/2,
  m = 1/2), which is also its only user-defined state.
\<close>

definition half_state :: StateOne where
  "half_state = mkStateOne ''Rb'' 5 0 (1 / 2) (1 / 2)"

definition sysC :: SystemOne where
  "sysC = (newSystemOne ''Rb'')
            \<lparr>range_n := [5], range_l := [0], range_m := [1 / 2], states_to_add := [half_state]\<rparr>"

text \<open>
  A system restricted to n = 5, l = 0 and to the magnetic quantum numbers -1/4 and 1/4,
  with even reflection parity.
\<close>

definition quarter_state :: StateOne where
  "quarter_state = mkStateOne ''Rb'' 5 0 (1 / 2) (1 / 4)"

definition sysG :: SystemOne where
  "sysG = (newSystemOne ''Rb'')
            \<lparr>range_n := [5], range_l := [0], range_m := [- 1 / 4, 1 / 4], sym_reflection := EVEN\<rparr>"

section \<open>Properties of the containers\<close>

lemma set_set_insert: "set (set_insert x xs) = insert x (set xs)"
  by (auto simp: set_insert_def set_insort_key)

lemma set_set_insert_range: "set (set_insert_range ys xs) = set xs \<union> set ys"
  unfolding set_insert_range_def
  by (induction ys arbitrary: xs) (auto simp: set_set_insert)

section \<open>Field setters: what they change, and when they throw\<close>

text \<open>
  C10. In the real-scalar build, \<open>setEfield\<close> and \<open>setBfield\<close> throw exactly when the
  y-component of the new field is not zero; when they throw, the Cartesian field member
  already holds the new value, and the spherical components (and, for the magnetic field,
  the diamagnetic terms) are as before the call.
\<close>

theorem setEfield_setBfield_real_error:
  "(fst (setEfield RealScalar field s) = (if fst (snd field) \<noteq> 0 then Some ComplexDataTypeNeeded else None)) \<and>
   (fst (setBfield RealScalar field s) = (if fst (snd field) \<noteq> 0 then Some ComplexDataTypeNeeded else None)) \<and>
   (fst (snd field) \<noteq> 0 \<longrightarrow>
      efield (snd (setEfield RealScalar field s)) = field \<and>
      efield_spherical (snd (setEfield RealScalar field s)) = efield_spherical s \<and>
      bfield (snd (setBfield RealScalar field s)) = field \<and>
      bfield_spherical (snd (setBfield RealScalar field s)) = bfield_spherical s \<and>
      diamagnetism_terms (snd (setBfield RealScalar field s)) = diamagnetism_terms s)"
  by (cases field)
     (simp add: setEfield_def setBfield_def changeToSphericalbasis_def onParameterChange_def Let_def)

text \<open>
  C10 on a fresh system: the field (1, 2, 3) is refused and stays assigned, the field (1, 0,
  3) is accepted.
\<close>

theorem setEfield_setBfield_real_error_witness:
  "fst (setEfield RealScalar (1, 2, 3) (newSystemOne ''Rb'')) = Some ComplexDataTypeNeeded \<and>
   efield (snd (setEfield RealScalar (1, 2, 3) (newSystemOne ''Rb''))) = (1, 2, 3) \<and>
   efield_spherical (snd (setEfield RealScalar (1, 2, 3) (newSystemOne ''Rb''))) = [] \<and>
   fst (setBfield RealScalar (1, 2, 3) (newSystemOne ''Rb'')) = Some ComplexDataTypeNeeded \<and>
   bfield (snd (setBfield RealScalar (1, 2, 3) (newSystemOne ''Rb''))) = (1, 2, 3) \<and>
   bfield_spherical (snd (setBfield RealScalar (1, 2, 3) (newSystemOne ''Rb''))) = [] \<and>
   fst (setEfield RealScalar (1, 0, 3) (newSystemOne ''Rb'')) = None"
  using setEfield_setBfield_real_error [of "(1, 2, 3)" "newSystemOne ''Rb''"]
        setEfield_setBfield_real_error [of "(1, 0, 3)" "newSystemOne ''Rb''"]
  by (simp add: newSystemOne_def)

text \<open>
  C9, as the claim states it, fails for the magnetic field: \<open>setBfield\<close> changes the
  diamagnetic terms as well, so the system after the call is not the system before it with
  only the field vector, its spherical components and the assembler state replaced.
\<close>

theorem setBfield_frame_counterexample:
  "snd (setBfield RealScalar (0, 0, 1) (newSystemOne ''Rb'')) \<noteq>
     (newSystemOne ''Rb'')
       \<lparr>bfield := bfield (snd (setBfield RealScalar (0, 0, 1) (newSystemOne ''Rb''))),
        bfield_spherical := bfield_spherical (snd (setBfield RealScalar (0, 0, 1) (newSystemOne ''Rb''))),
        assembler := assembler (snd (setBfield RealScalar (0, 0, 1) (newSystemOne ''Rb'')))\<rparr>"
  by (simp add: setBfield_def changeToSphericalbasis_def onParameterChange_def Let_def
      newSystemOne_def set_diamagnetism_terms_def)

text \<open>
  C9, amended. \<open>setEfield\<close> changes nothing but the electric field vector, its spherical
  components and the assembler state; \<open>setBfield\<close> nothing but the magnetic field vector, its
  spherical components, the diamagnetic terms derived from them and the assembler state. In
  particular the four operator caches are left as they are, whether the call throws or not,
  and the assembler is not clean afterwards.
\<close>

theorem setEfield_setBfield_frame:
  "snd (setEfield k field s) =
     s\<lparr>efield := efield (snd (setEfield k field s)),
       efield_spherical := efield_spherical (snd (setEfield k field s)),
       assembler := assembler (snd (setEfield k field s))\<rparr> \<and>
   snd (setBfield k field s) =
     s\<lparr>bfield := bfield (snd (setBfield k field s)),
       bfield_spherical := bfield_spherical (snd (setBfield k field s)),
       diamagnetism_terms := diamagnetism_terms (snd (setBfield k field s)),
       assembler := assembler (snd (setBfield k field s))\<rparr> \<and>
   interaction_efield (snd (setEfield k field s)) = interaction_efield s \<and>
   interaction_bfield (snd (setEfield k field s)) = interaction_bfield s \<and>
   interaction_diamagnetism (snd (setEfield k field s)) = interaction_diamagnetism s \<and>
   interaction_multipole (snd (setEfield k field s)) = interaction_multipole s \<and>
   interaction_efield (snd (setBfield k field s)) = interaction_efield s \<and>
   interaction_bfield (snd (setBfield k field s)) = interaction_bfield s \<and>
   interaction_diamagnetism (snd (setBfield k field s)) = interaction_diamagnetism s \<and>
   interaction_multipole (snd (setBfield k field s)) = interaction_multipole s \<and>
   assembler (snd (setEfield k field s)) \<noteq> Clean \<and>
   assembler (snd (setBfield k field s)) \<noteq> Clean"
  by (cases field; cases k)
     (simp_all add: setEfield_def setBfield_def changeToSphericalbasis_def onParameterChange_def Let_def)

section \<open>Symmetry setters: when they throw\<close>

lemma arb_single: "ARB \<in> set ms \<Longrightarrow> length ms \<le> 1 \<Longrightarrow> ms = [ARB]"
  by (cases ms) auto

lemma compatible_iff_spec:
  "(ARB \<in> set (sym_rotation s) \<longrightarrow> sym_rotation s = [ARB]) \<Longrightarrow>
   isRefelectionAndRotationCompatible s = spec_compatible (sym_reflection s) (sym_rotation s)"
  by (auto simp: isRefelectionAndRotationCompatible_def spec_compatible_def list_all_iff)

text \<open>
  C4, as the claim states it, fails for the momenta setter: on a fresh system (parity
  unset, so every momenta set is compatible in the claim's sense) the set {1, ARB} is
  refused, because it names ARB together with an explicit value.
\<close>

theorem setConservedMomenta_counterexample:
  "\<not> (fst (setConservedMomentaUnderRotation [1, ARB] (newSystemOne ''Rb'')) = None
       \<longleftrightarrow> spec_compatible (sym_reflection (newSystemOne ''Rb'')) [1, ARB])"
  by (simp add: setConservedMomentaUnderRotation_def spec_compatible_def newSystemOne_def)

text \<open>
  C4, amended. Setting the reflection parity succeeds exactly when the new parity and the
  stored momenta set are compatible (for a stored set that holds ARB only as the sentinel
  {ARB}, which is all the constructor and the setter ever store). Setting the momenta
  succeeds exactly when the new set does not name ARB together with other values and is
  compatible with the stored parity. On a fresh system, momenta {-1, 1} and then parity
  EVEN succeed; momenta {1} succeed and parity EVEN then fails.
\<close>

theorem symmetry_setters_compatible:
  "((ARB \<in> set (sym_rotation s) \<longrightarrow> sym_rotation s = [ARB]) \<longrightarrow>
      (fst (setConservedParityUnderReflection parity s) = None
         \<longleftrightarrow> spec_compatible parity (sym_rotation s))) \<and>
   (fst (setConservedMomentaUnderRotation momenta s) = None
      \<longleftrightarrow> \<not> (ARB \<in> set momenta \<and> length momenta > 1)
          \<and> spec_compatible (sym_reflection s) momenta) \<and>
   fst (setConservedMomentaUnderRotation [- 1, 1] (newSystemOne sp)) = None \<and>
   fst (setConservedParityUnderReflection EVEN
         (snd (setConservedMomentaUnderRotation [- 1, 1] (newSystemOne sp)))) = None \<and>
   fst (setConservedMomentaUnderRotation [1] (newSystemOne sp)) = None \<and>
   fst (setConservedParityUnderReflection EVEN
         (snd (setConservedMomentaUnderRotation [1] (newSystemOne sp)))) = Some ParityNotCompatible"
proof -
  have a: "(ARB \<in> set (sym_rotation s) \<longrightarrow> sym_rotation s = [ARB]) \<longrightarrow>
      (fst (setConservedParityUnderReflection parity s) = None
         \<longleftrightarrow> spec_compatible parity (sym_rotation s))"
    using compatible_iff_spec [of "s\<lparr>assembler := SymmetryDirty, sym_reflection := parity\<rparr>"]
    by (simp add: setConservedParityUnderReflection_def onSymmetryChange_def Let_def)
  have b: "fst (setConservedMomentaUnderRotation momenta s) = None
      \<longleftrightarrow> \<not> (ARB \<in> set momenta \<and> length momenta > 1)
          \<and> spec_compatible (sym_reflection s) momenta"
  proof (cases "ARB \<in> set momenta \<and> length momenta > 1")
    case True
    then show ?thesis by (simp add: setConservedMomentaUnderRotation_def)
  next
    case False
    then have "ARB \<in> set momenta \<longrightarrow> momenta = [ARB]"
      using arb_single [of momenta] by auto
    then show ?thesis
      using False compatible_iff_spec [of "s\<lparr>assembler := SymmetryDirty, sym_rotation := momenta\<rparr>"]
      by (simp add: setConservedMomentaUnderRotation_def onSymmetryChange_def Let_def)
  qed
  have c: "fst (setConservedMomentaUnderRotation [- 1, 1] (newSystemOne sp)) = None"
    by (simp add: setConservedMomentaUnderRotation_def
        onSymmetryChange_def Let_def isRefelectionAndRotationCompatible_def newSystemOne_def ARB_def)
  have d: "fst (setConservedParityUnderReflection EVEN
         (snd (setConservedMomentaUnderRotation [- 1, 1] (newSystemOne sp)))) = None"
    by (simp add: setConservedMomentaUnderRotation_def setConservedParityUnderReflection_def
        onSymmetryChange_def Let_def isRefelectionAndRotationCompatible_def newSystemOne_def ARB_def)
  have e: "fst (setConservedMomentaUnderRotation [1] (newSystemOne sp)) = None"
    by (simp add: setConservedMomentaUnderRotation_def
        onSymmetryChange_def Let_def isRefelectionAndRotationCompatible_def newSystemOne_def ARB_def)
  have f: "fst (setConservedParityUnderReflection EVEN
         (snd (setConservedMomentaUnderRotation [1] (newSystemOne sp)))) = Some ParityNotCompatible"
    by (simp add: setConservedMomentaUnderRotation_def setConservedParityUnderReflection_def
        onSymmetryChange_def Let_def isRefelectionAndRotationCompatible_def newSystemOne_def ARB_def)
  from a b c d e f show ?thesis by blast
qed

text \<open>
  C4 (amended) on the system \<open>sysA\<close>, whose momenta are {-1, 1}, and on the same
  system with the momenta {1}.
\<close>

theorem symmetry_setters_compatible_witness:
  "ARB \<notin> set (sym_rotation sysA) \<and>
   fst (setConservedParityUnderReflection ODD sysA) = None \<and>
   fst (setConservedParityUnderReflection ODD (sysA\<lparr>sym_rotation := [1]\<rparr>)) \<noteq> None \<and>
   fst (setConservedMomentaUnderRotation [- 2, 2] sysA) = None \<and>
   fst (setConservedMomentaUnderRotation [2] (sysA\<lparr>sym_rotation := [1]\<rparr>)) \<noteq> None"
  using symmetry_setters_compatible [of sysA ODD "[- 2, 2]" "''Rb''"]
        symmetry_setters_compatible [of "sysA\<lparr>sym_rotation := [1]\<rparr>" ODD "[2]" "''Rb''"]
  by (simp add: sysA_def newSystemOne_def spec_compatible_def ARB_def)

section \<open>Combining two systems: the checks\<close>

text \<open>
  C7. \<open>incorporate\<close> throws exactly when the two systems differ in species, electric
  field vector, magnetic field vector or diamagnetism flag. When they agree on the four it
  returns, also when the symmetries differ: a differing reflection parity becomes NA, a
  differing momenta set becomes {ARB} if either set holds ARB and the union of the two
  otherwise; the warning is printed exactly when both symmetries differ; the operator caches
  are cleared.
\<close>

theorem incorporate_checks:
  "((\<exists>e. incorporate s other = Inl e) \<longleftrightarrow>
      (species s \<noteq> species other \<or> efield s \<noteq> efield other \<or> bfield s \<noteq> bfield other
       \<or> diamagnetism s \<noteq> diamagnetism other)) \<and>
   (species s = species other \<and> efield s = efield other \<and> bfield s = bfield other
      \<and> diamagnetism s = diamagnetism other \<longrightarrow>
    (\<exists>s' warned. incorporate s other = Inr (s', warned) \<and>
       (warned \<longleftrightarrow> sym_reflection s \<noteq> sym_reflection other \<and> sym_rotation s \<noteq> sym_rotation other) \<and>
       sym_reflection s' = (if sym_reflection s = sym_reflection other then sym_reflection s else NA) \<and>
       (sym_rotation s = sym_rotation other \<longrightarrow> sym_rotation s' = sym_rotation s) \<and>
       (sym_rotation s \<noteq> sym_rotation other \<and> (ARB \<in> set (sym_rotation s) \<or> ARB \<in> set (sym_rotation other))
          \<longrightarrow> sym_rotation s' = [ARB]) \<and>
       (sym_rotation s \<noteq> sym_rotation other \<and> ARB \<notin> set (sym_rotation s) \<and> ARB \<notin> set (sym_rotation other)
          \<longrightarrow> set (sym_rotation s') = set (sym_rotation s) \<union> set (sym_rotation other)) \<and>
       interaction_efield s' = Map.empty \<and> interaction_bfield s' = Map.empty \<and>
       interaction_diamagnetism s' = Map.empty \<and> interaction_multipole s' = Map.empty))"
  by (auto simp: incorporate_def Let_def deleteInteraction_def set_set_insert_range)

text \<open>
  C7 on the systems \<open>sysA\<close> and \<open>sysB\<close>, which differ in both
  symmetries, and on the same pair with different electric fields.
\<close>

theorem incorporate_checks_witness:
  "(\<exists>s'. incorporate sysA sysB = Inr (s', True)
      \<and> sym_reflection s' = NA \<and> set (sym_rotation s') = {- 1, 0, 1}) \<and>
   (\<exists>e. incorporate sysA (sysB\<lparr>efield := (0, 0, 1)\<rparr>) = Inl e)"
  using incorporate_checks [of sysA sysB] incorporate_checks [of sysA "sysB\<lparr>efield := (0, 0, 1)\<rparr>"]
  by (auto simp: sysA_def sysB_def newSystemOne_def ARB_def)

section \<open>The linear combination of \<open>addInteraction\<close>\<close>

lemma subscript_get_touch [simp]:
  "subscript_get (subscript_touch k al) k' = subscript_get al k'"
  by (auto simp: subscript_get_def subscript_touch_def split: option.splits if_splits)

lemma cache_get_touch [simp]: "cache_get (cache_touch k m) k' = cache_get m k'"
  by (auto simp: cache_get_def cache_touch_def split: option.splits)

lemma same_inputs_refl [simp]: "same_inputs s s"
  by (simp add: same_inputs_def)

lemma efield_term_same [simp]:
  "same_inputs s0 s \<Longrightarrow> same_inputs s0 (efield_term sub kop kc s)"
  by (simp add: same_inputs_def efield_term_def Let_def mat_add_def mat_sub_def)

lemma efield_term_coeff:
  "same_inputs s0 s \<Longrightarrow>
   coeff (hamiltonian (efield_term sub kop kc s)) r c =
     coeff (hamiltonian s) r c
     + signed sub (gated (subscript_get (efield_spherical s0) kc)
                   * coeff (cache_get (interaction_efield s0) kop) r c)"
  by (simp add: same_inputs_def efield_term_def Let_def mat_add_def mat_sub_def mat_scale_def
      gated_def signed_def)

lemma bfield_term_same [simp]:
  "same_inputs s0 s \<Longrightarrow> same_inputs s0 (bfield_term sub kop kc s)"
  by (simp add: same_inputs_def bfield_term_def Let_def mat_add_def mat_sub_def)

lemma bfield_term_coeff:
  "same_inputs s0 s \<Longrightarrow>
   coeff (hamiltonian (bfield_term sub kop kc s)) r c =
     coeff (hamiltonian s) r c
     + signed sub (gated (subscript_get (bfield_spherical s0) kc)
                   * coeff (cache_get (interaction_bfield s0) kop) r c)"
  by (simp add: same_inputs_def bfield_term_def Let_def mat_add_def mat_sub_def mat_scale_def
      gated_def signed_def)

lemma same_inputs_diamagnetism:
  "same_inputs s0 s \<Longrightarrow>
   subscript_get (diamagnetism_terms s) k = subscript_get (diamagnetism_terms s0) k \<and>
   cache_get (interaction_diamagnetism s) k = cache_get (interaction_diamagnetism s0) k \<and>
   diamagnetism s = diamagnetism s0"
  unfolding same_inputs_def by blast

lemma diamagnetism_term_same [simp]:
  "same_inputs s0 s \<Longrightarrow> same_inputs s0 (diamagnetism_term sub k f s)"
  by (simp add: same_inputs_def diamagnetism_term_def Let_def mat_add_def mat_sub_def
      del: split_paired_All)

lemma diamagnetism_term_coeff:
  "same_inputs s0 s \<Longrightarrow>
   coeff (hamiltonian (diamagnetism_term sub k f s)) r c =
     coeff (hamiltonian s) r c
     + (if diamagnetism s0
        then signed sub (gated (subscript_get (diamagnetism_terms s0) k) * complex_of_real f
                         * coeff (cache_get (interaction_diamagnetism s0) k) r c)
        else 0)"
  using same_inputs_diamagnetism [of s0 s k]
  by (simp add: diamagnetism_term_def Let_def mat_add_def mat_sub_def mat_scale_def
      gated_def signed_def)

lemma multipole_term_same [simp]:
  "same_inputs s0 s \<Longrightarrow> same_inputs s0 (multipole_term order s)"
  by (simp add: same_inputs_def multipole_term_def Let_def mat_add_def)

lemma multipole_term_coeff:
  "same_inputs s0 s \<Longrightarrow> distance s0 \<noteq> 0 \<Longrightarrow>
   coeff (hamiltonian (multipole_term order s)) r c =
     coeff (hamiltonian s) r c
     + complex_of_real (real_of_int (charge s0) * (1 / distance s0 ^ (order + 1)))
       * coeff (cache_get (interaction_multipole s0) (int order)) r c"
  by (simp add: same_inputs_def multipole_term_def Let_def mat_add_def mat_scale_def)

lemma fold_multipole_same:
  "same_inputs s0 s \<Longrightarrow> same_inputs s0 (fold multipole_term os s)"
  by (induction os arbitrary: s) simp_all

lemma fold_multipole_term:
  "same_inputs s0 s \<Longrightarrow> distance s0 \<noteq> 0 \<or> os = [] \<Longrightarrow>
   coeff (hamiltonian (fold multipole_term os s)) r c =
     coeff (hamiltonian s) r c
     + (\<Sum>order\<leftarrow>os. complex_of_real (real_of_int (charge s0) * (1 / distance s0 ^ (order + 1)))
                      * coeff (cache_get (interaction_multipole s0) (int order)) r c)"
proof (induction os arbitrary: s)
  case Nil
  then show ?case by simp
next
  case (Cons a os)
  from Cons.prems(2) have d: "distance s0 \<noteq> 0" by simp
  from Cons.prems(1) have "same_inputs s0 (multipole_term a s)" by simp
  from Cons.IH [OF this] d Cons.prems(1) show ?case
    by (simp add: multipole_term_coeff add.assoc)
qed

lemma multipole_terms_same [simp]:
  "same_inputs s0 s \<Longrightarrow> same_inputs s0 (multipole_terms s)"
  by (simp add: multipole_terms_def fold_multipole_same)

lemma multipole_terms_coeff:
  "same_inputs s0 s \<Longrightarrow> distance s0 \<noteq> 0 \<or> charge s0 = 0 \<or> ordermax s0 = 0 \<Longrightarrow>
   coeff (hamiltonian (multipole_terms s)) r c =
     coeff (hamiltonian s) r c
     + (if charge s0 \<noteq> 0 \<and> distance s0 \<noteq> double_max
        then (\<Sum>order\<leftarrow>[1..<Suc (ordermax s0)].
                complex_of_real (real_of_int (charge s0) * (1 / distance s0 ^ (order + 1)))
                * coeff (cache_get (interaction_multipole s0) (int order)) r c)
        else 0)"
proof -
  assume a: "same_inputs s0 s" and d: "distance s0 \<noteq> 0 \<or> charge s0 = 0 \<or> ordermax s0 = 0"
  then have b: "charge s = charge s0" "distance s = distance s0" "ordermax s = ordermax s0"
    by (simp_all add: same_inputs_def)
  show ?thesis
  proof (cases "charge s0 \<noteq> 0 \<and> distance s0 \<noteq> double_max")
    case False
    then show ?thesis by (auto simp: multipole_terms_def b)
  next
    case True
    with d have "distance s0 \<noteq> 0 \<or> [1..<Suc (ordermax s0)] = []" by auto
    from fold_multipole_term [OF a this, of r c] True show ?thesis
      by (simp add: multipole_terms_def b del: upt_Suc)
  qed
qed

lemma addInteraction_same_inputs: "same_inputs s (addInteraction s)"
  by (simp add: addInteraction_def)

lemma addInteraction_coeff:
  "distance s \<noteq> 0 \<or> charge s = 0 \<or> ordermax s = 0 \<Longrightarrow>
   coeff (hamiltonian (addInteraction s)) r c =
     coeff (hamiltonian s) r c
     - gated (subscript_get (efield_spherical s) 0) * coeff (cache_get (interaction_efield s) 0) r c
     + gated (subscript_get (efield_spherical s) (- 1)) * coeff (cache_get (interaction_efield s) 1) r c
     + gated (subscript_get (efield_spherical s) 1) * coeff (cache_get (interaction_efield s) (- 1)) r c
     - gated (subscript_get (bfield_spherical s) 0) * coeff (cache_get (interaction_bfield s) 0) r c
     + gated (subscript_get (bfield_spherical s) (- 1)) * coeff (cache_get (interaction_bfield s) 1) r c
     + gated (subscript_get (bfield_spherical s) 1) * coeff (cache_get (interaction_bfield s) (- 1)) r c
     + (if diamagnetism s
        then gated (subscript_get (diamagnetism_terms s) (0, 0))
               * coeff (cache_get (interaction_diamagnetism s) (0, 0)) r c
             - gated (subscript_get (diamagnetism_terms s) (2, 0))
               * coeff (cache_get (interaction_diamagnetism s) (2, 0)) r c
             + gated (subscript_get (diamagnetism_terms s) (2, 1)) * complex_of_real (sqrt 3)
               * coeff (cache_get (interaction_diamagnetism s) (2, 1)) r c
             + gated (subscript_get (diamagnetism_terms s) (2, - 1)) * complex_of_real (sqrt 3)
               * coeff (cache_get (interaction_diamagnetism s) (2, - 1)) r c
             - gated (subscript_get (diamagnetism_terms s) (2, 2)) * complex_of_real (sqrt (3 / 2))
               * coeff (cache_get (interaction_diamagnetism s) (2, 2)) r c
             - gated (subscript_get (diamagnetism_terms s) (2, - 2)) * complex_of_real (sqrt (3 / 2))
               * coeff (cache_get (interaction_diamagnetism s) (2, - 2)) r c
        else 0)
     + (if charge s \<noteq> 0 \<and> distance s \<noteq> double_max
        then (\<Sum>order\<leftarrow>[1..<Suc (ordermax s)].
                complex_of_real (real_of_int (charge s) * (1 / distance s ^ (order + 1)))
                * coeff (cache_get (interaction_multipole s) (int order)) r c)
        else 0)"
  unfolding addInteraction_def
  by (simp add: multipole_terms_coeff [where ?s0.0 = s] diamagnetism_term_coeff [where ?s0.0 = s]
      bfield_term_coeff [where ?s0.0 = s] efield_term_coeff [where ?s0.0 = s] signed_def
      del: upt_Suc)

lemma sysE_fields:
  "efield_spherical sysE = [(1, 0), (- 1, 0), (0, 1)]"
  "bfield_spherical sysE = []" "diamagnetism_terms sysE = []" "charge sysE = 0"
  "hamiltonian sysE = one_by_one 5" "interaction_efield sysE = [0 \<mapsto> one_by_one 1]"
  by (simp_all add: sysE_def setEfield_def changeToSphericalbasis_def onParameterChange_def
      newSystemOne_def Let_def)

text \<open>
  C6, as the claim states it, fails on the signs. In \<open>sysE\<close> the only coefficient above
  the tolerance is the component 0 of the electric field, with value 1; the Hamiltonian
  after \<open>addInteraction\<close> is not the field-free operator plus that operator scaled by its
  coefficient (the source subtracts it).
\<close>

theorem addInteraction_sign_counterexample:
  "gated (subscript_get (efield_spherical sysE) 0) = 1 \<and>
   gated (subscript_get (efield_spherical sysE) 1) = 0 \<and>
   gated (subscript_get (efield_spherical sysE) (- 1)) = 0 \<and>
   bfield_spherical sysE = [] \<and> diamagnetism_terms sysE = [] \<and> charge sysE = 0 \<and>
   hamiltonian (addInteraction sysE) \<noteq>
     mat_add (hamiltonian sysE)
       (mat_scale (subscript_get (efield_spherical sysE) 0) (cache_get (interaction_efield sysE) 0))"
proof -
  have g: "gated (subscript_get (efield_spherical sysE) 0) = 1"
      "gated (subscript_get (efield_spherical sysE) 1) = 0"
      "gated (subscript_get (efield_spherical sysE) (- 1)) = 0"
    by (simp_all add: sysE_fields gated_def subscript_get_def tolerance_def)
  have c: "distance sysE \<noteq> 0 \<or> charge sysE = 0 \<or> ordermax sysE = 0"
    by (simp add: sysE_fields)
  have l: "coeff (hamiltonian (addInteraction sysE)) 0 0 = 4"
    using addInteraction_coeff [OF c, of 0 0]
    by (simp add: g) (simp add: sysE_fields gated_def subscript_get_def cache_get_def one_by_one_def
        setFromTriplets_def)
  have r: "coeff (mat_add (hamiltonian sysE)
       (mat_scale (subscript_get (efield_spherical sysE) 0) (cache_get (interaction_efield sysE) 0))) 0 0 = 6"
    by (simp add: sysE_fields subscript_get_def cache_get_def one_by_one_def
        setFromTriplets_def mat_add_def mat_scale_def)
  from l r have "hamiltonian (addInteraction sysE) \<noteq>
     mat_add (hamiltonian sysE)
       (mat_scale (subscript_get (efield_spherical sysE) 0) (cache_get (interaction_efield sysE) 0))"
    by auto
  with g show ?thesis by (simp add: sysE_fields)
qed

text \<open>
  C6, amended. For a distance that is not zero (or when no multipole term is added: the
  charge is zero or ordermax is zero), \<open>addInteraction\<close> leaves the dimensions of the
  Hamiltonian as they are, and every coefficient of the result is the coefficient of the
  field-free operator minus the operators of the component 0 of the electric and of the
  magnetic field, each times its spherical field component, plus the operators of the
  components +1 and -1, each times the field component of the opposite index; if diamagnetism
  is enabled, plus the (0,0) term, minus the (2,0) term, plus the (2,+1) and (2,-1) terms times
  sqrt 3, minus the (2,+2) and (2,-2) terms times sqrt 1.5, each times its diamagnetic
  coefficient; and, if the charge is not zero and the distance is not the "no ion" value, plus
  for every order from 1 to ordermax the multipole operator times charge / distance^(order+1).
  A field or diamagnetic term whose coefficient does not exceed 1e-24 in absolute value is
  left out. (At the distance zero the source divides by zero; that case is left open.)
\<close>

theorem addInteraction_linear_combination:
  "distance s \<noteq> 0 \<or> charge s = 0 \<or> ordermax s = 0 \<longrightarrow>
   rows (hamiltonian (addInteraction s)) = rows (hamiltonian s) \<and>
   cols (hamiltonian (addInteraction s)) = cols (hamiltonian s) \<and>
   coeff (hamiltonian (addInteraction s)) r c =
     coeff (hamiltonian s) r c
     - gated (subscript_get (efield_spherical s) 0) * coeff (cache_get (interaction_efield s) 0) r c
     + gated (subscript_get (efield_spherical s) (- 1)) * coeff (cache_get (interaction_efield s) 1) r c
     + gated (subscript_get (efield_spherical s) 1) * coeff (cache_get (interaction_efield s) (- 1)) r c
     - gated (subscript_get (bfield_spherical s) 0) * coeff (cache_get (interaction_bfield s) 0) r c
     + gated (subscript_get (bfield_spherical s) (- 1)) * coeff (cache_get (interaction_bfield s) 1) r c
     + gated (subscript_get (bfield_spherical s) 1) * coeff (cache_get (interaction_bfield s) (- 1)) r c
     + (if diamagnetism s
        then gated (subscript_get (diamagnetism_terms s) (0, 0))
               * coeff (cache_get (interaction_diamagnetism s) (0, 0)) r c
             - gated (subscript_get (diamagnetism_terms s) (2, 0))
               * coeff (cache_get (interaction_diamagnetism s) (2, 0)) r c
             + gated (subscript_get (diamagnetism_terms s) (2, 1)) * complex_of_real (sqrt 3)
               * coeff (cache_get (interaction_diamagnetism s) (2, 1)) r c
             + gated (subscript_get (diamagnetism_terms s) (2, - 1)) * complex_of_real (sqrt 3)
               * coeff (cache_get (interaction_diamagnetism s) (2, - 1)) r c
             - gated (subscript_get (diamagnetism_terms s) (2, 2)) * complex_of_real (sqrt (3 / 2))
               * coeff (cache_get (interaction_diamagnetism s) (2, 2)) r c
             - gated (subscript_get (diamagnetism_terms s) (2, - 2)) * complex_of_real (sqrt (3 / 2))
               * coeff (cache_get (interaction_diamagnetism s) (2, - 2)) r c
        else 0)
     + (if charge s \<noteq> 0 \<and> distance s \<noteq> double_max
        then (\<Sum>order\<leftarrow>[1..<Suc (ordermax s)].
                complex_of_real (real_of_int (charge s) * (1 / distance s ^ (order + 1)))
                * coeff (cache_get (interaction_multipole s) (int order)) r c)
        else 0)"
  using addInteraction_same_inputs [of s] addInteraction_coeff [of s r c]
  unfolding same_inputs_def by blast

lemma sysM_fields:
  "efield_spherical sysM = [(1, 0), (- 1, 0), (0, 1)]"
  "bfield_spherical sysM = []" "diamagnetism_terms sysM = []" "charge sysM = 1"
  "ordermax sysM = 2" "distance sysM = 2"
  "hamiltonian sysM = one_by_one 5" "interaction_efield sysM = [0 \<mapsto> one_by_one 1]"
  "interaction_multipole sysM = [1 \<mapsto> one_by_one 1, 2 \<mapsto> one_by_one 8]"
  by (simp_all add: sysM_def sysE_fields)

lemma double_max_gt2: "2 < double_max"
proof -
  have "(2::real) \<le> 2 ^ 53 - 1" by simp
  moreover have "(1::real) < 2 ^ 971" by (rule one_less_power) simp_all
  ultimately have "(2::real) * 1 < (2 ^ 53 - 1) * 2 ^ 971"
    by (intro mult_le_less_imp_less) simp_all
  then show ?thesis by (simp add: double_max_def)
qed

lemma upt_1_3: "[Suc 0..<3] = [Suc 0, 2]"
  by (simp add: upt_rec)

text \<open>
  C6 (amended) on \<open>sysM\<close>: the field-free coefficient 5, minus the operator of the component
  0 of the electric field times the field component 1, plus the multipole operators of the
  orders 1 and 2 times 1/2^2 and 1/2^3.
\<close>

theorem addInteraction_linear_combination_witness:
  "distance sysM \<noteq> 0 \<and> charge sysM \<noteq> 0 \<and> ordermax sysM = 2 \<and>
   rows (hamiltonian (addInteraction sysM)) = 1 \<and>
   cols (hamiltonian (addInteraction sysM)) = 1 \<and>
   coeff (hamiltonian (addInteraction sysM)) 0 0 = 21 / 4"
proof -
  have g: "gated (subscript_get (efield_spherical sysM) 0) = 1"
      "gated (subscript_get (efield_spherical sysM) 1) = 0"
      "gated (subscript_get (efield_spherical sysM) (- 1)) = 0"
      "\<And>k. gated (subscript_get (bfield_spherical sysM) k) = 0"
      "\<And>k. gated (subscript_get (diamagnetism_terms sysM) k) = 0"
    by (simp_all add: sysM_fields gated_def subscript_get_def tolerance_def)
  have d: "distance sysM \<noteq> double_max" "distance sysM \<noteq> 0" "charge sysM \<noteq> 0"
    using double_max_gt2 by (simp_all add: sysM_fields)
  have m: "(\<Sum>order\<leftarrow>[1..<Suc (ordermax sysM)].
                complex_of_real (real_of_int (charge sysM) * (1 / distance sysM ^ (order + 1)))
                * coeff (cache_get (interaction_multipole sysM) (int order)) 0 0) = 5 / 4"
    by (simp add: sysM_fields upt_1_3 cache_get_def one_by_one_def setFromTriplets_def)
  have h: "coeff (hamiltonian sysM) 0 0 = 5" "coeff (cache_get (interaction_efield sysM) 0) 0 0 = 1"
    "rows (hamiltonian sysM) = 1" "cols (hamiltonian sysM) = 1"
    by (simp_all add: sysM_fields cache_get_def one_by_one_def setFromTriplets_def)
  have dia: "diamagnetism sysM"
    by (simp add: sysM_def sysE_def setEfield_def changeToSphericalbasis_def onParameterChange_def
      newSystemOne_def Let_def)
  from addInteraction_linear_combination [of sysM 0 0] d
  have "rows (hamiltonian (addInteraction sysM)) = 1 \<and>
   cols (hamiltonian (addInteraction sysM)) = 1 \<and>
   coeff (hamiltonian (addInteraction sysM)) 0 0 = 5 - 1 * 1 + 5 / 4"
    unfolding g m h by (simp add: dia del: upt_Suc)
  with d show ?thesis by (simp add: sysM_fields)
qed

section \<open>The operators built by \<open>initializeInteraction\<close>\<close>

















lemma efield_loop_efield:
  "interaction_efield_triplets (efield_loop env r c js T) k =
     interaction_efield_triplets T k
     @ (if find (efield_guard env r c) js = Some k then [efield_triplet env r c] else [])"
  by (induction js arbitrary: T) (auto simp: efield_guard_def efield_triplet_def)

lemma bfield_loop_bfield:
  "interaction_bfield_triplets (bfield_loop env r c js T) k =
     interaction_bfield_triplets T k
     @ (if find (bfield_guard env r c) js = Some k then [bfield_triplet env r c] else [])"
  by (induction js arbitrary: T) (auto simp: bfield_guard_def bfield_triplet_def)

lemma diamagnetism_loop_diamagnetism:
  "interaction_diamagnetism_triplets (diamagnetism_loop env r c js T) k =
     interaction_diamagnetism_triplets T k
     @ map (diamagnetism_triplet env r c) (filter (\<lambda>i. i = k \<and> diamagnetism_guard env r c i) js)"
  by (induction js arbitrary: T) (auto simp: diamagnetism_guard_def diamagnetism_triplet_def)

lemma multipole_loop_multipole:
  "interaction_multipole_triplets (multipole_loop env r c js T) k =
     interaction_multipole_triplets T k
     @ map (multipole_triplet env r c)
         (filter (\<lambda>i. i = k \<and> selectionRulesMultipoleNew3 env (snd r) (snd c) i) js)"
  by (induction js arbitrary: T) (auto simp: multipole_triplet_def)


lemma efield_loop_frame:
  "interaction_bfield_triplets (efield_loop env r c js T) = interaction_bfield_triplets T"
  "interaction_diamagnetism_triplets (efield_loop env r c js T) = interaction_diamagnetism_triplets T"
  "interaction_multipole_triplets (efield_loop env r c js T) = interaction_multipole_triplets T"
  by (induction js arbitrary: T) auto

lemma bfield_loop_frame:
  "interaction_efield_triplets (bfield_loop env r c js T) = interaction_efield_triplets T"
  "interaction_diamagnetism_triplets (bfield_loop env r c js T) = interaction_diamagnetism_triplets T"
  "interaction_multipole_triplets (bfield_loop env r c js T) = interaction_multipole_triplets T"
  by (induction js arbitrary: T) auto

lemma diamagnetism_loop_frame:
  "interaction_efield_triplets (diamagnetism_loop env r c ds T) = interaction_efield_triplets T"
  "interaction_bfield_triplets (diamagnetism_loop env r c ds T) = interaction_bfield_triplets T"
  "interaction_multipole_triplets (diamagnetism_loop env r c ds T) = interaction_multipole_triplets T"
  by (induction ds arbitrary: T) auto

lemma multipole_loop_frame:
  "interaction_efield_triplets (multipole_loop env r c js T) = interaction_efield_triplets T"
  "interaction_bfield_triplets (multipole_loop env r c js T) = interaction_bfield_triplets T"
  "interaction_diamagnetism_triplets (multipole_loop env r c js T) = interaction_diamagnetism_triplets T"
  by (induction js arbitrary: T) auto

lemmas loop_frames = efield_loop_frame bfield_loop_frame diamagnetism_loop_frame multipole_loop_frame

lemma row_entry_proj:
  "interaction_efield_triplets (row_entry env s c r T) k
     = interaction_efield_triplets T k @ efield_emit env s k c r"
  "interaction_bfield_triplets (row_entry env s c r T) k
     = interaction_bfield_triplets T k @ bfield_emit env s k c r"
  "interaction_diamagnetism_triplets (row_entry env s c r T) kd
     = interaction_diamagnetism_triplets T kd @ diamagnetism_emit env s kd c r"
  "interaction_multipole_triplets (row_entry env s c r T) k
     = interaction_multipole_triplets T k @ multipole_emit env s k c r"
  by (simp_all add: row_entry_def Let_def loop_frames efield_loop_efield bfield_loop_bfield
      diamagnetism_loop_diamagnetism multipole_loop_multipole
      efield_emit_def bfield_emit_def diamagnetism_emit_def multipole_emit_def)

lemma fold_append_proj:
  assumes "\<And>x T. P (f x T) = P T @ g x"
  shows "P (fold f xs T) = P T @ concat (map g xs)"
  using assms by (induction xs arbitrary: T) simp_all

lemma column_entry_proj:
  "interaction_efield_triplets (column_entry env s c T) k
     = interaction_efield_triplets T k
       @ (if isArtificial (snd c) then []
          else concat (map (efield_emit env s k c) (enumerate 0 (states s))))"
  "interaction_bfield_triplets (column_entry env s c T) k
     = interaction_bfield_triplets T k
       @ (if isArtificial (snd c) then []
          else concat (map (bfield_emit env s k c) (enumerate 0 (states s))))"
  "interaction_diamagnetism_triplets (column_entry env s c T) kd
     = interaction_diamagnetism_triplets T kd
       @ (if isArtificial (snd c) then []
          else concat (map (diamagnetism_emit env s kd c) (enumerate 0 (states s))))"
  "interaction_multipole_triplets (column_entry env s c T) k
     = interaction_multipole_triplets T k
       @ (if isArtificial (snd c) then []
          else concat (map (multipole_emit env s k c) (enumerate 0 (states s))))"
  using fold_append_proj [of "\<lambda>T. interaction_efield_triplets T k" "row_entry env s c"
          "efield_emit env s k c" "enumerate 0 (states s)" T]
        fold_append_proj [of "\<lambda>T. interaction_bfield_triplets T k" "row_entry env s c"
          "bfield_emit env s k c" "enumerate 0 (states s)" T]
        fold_append_proj [of "\<lambda>T. interaction_diamagnetism_triplets T kd" "row_entry env s c"
          "diamagnetism_emit env s kd c" "enumerate 0 (states s)" T]
        fold_append_proj [of "\<lambda>T. interaction_multipole_triplets T k" "row_entry env s c"
          "multipole_emit env s k c" "enumerate 0 (states s)" T]
  by (simp_all add: column_entry_def row_entry_proj)

lemma interaction_triplets_proj:
  "interaction_efield_triplets (interaction_triplets env s) k
     = concat (map (\<lambda>c. if isArtificial (snd c) then []
                         else concat (map (efield_emit env s k c) (enumerate 0 (states s))))
                   (enumerate 0 (states s)))"
  "interaction_bfield_triplets (interaction_triplets env s) k
     = concat (map (\<lambda>c. if isArtificial (snd c) then []
                         else concat (map (bfield_emit env s k c) (enumerate 0 (states s))))
                   (enumerate 0 (states s)))"
  "interaction_diamagnetism_triplets (interaction_triplets env s) kd
     = concat (map (\<lambda>c. if isArtificial (snd c) then []
                         else concat (map (diamagnetism_emit env s kd c) (enumerate 0 (states s))))
                   (enumerate 0 (states s)))"
  "interaction_multipole_triplets (interaction_triplets env s) k
     = concat (map (\<lambda>c. if isArtificial (snd c) then []
                         else concat (map (multipole_emit env s k c) (enumerate 0 (states s))))
                   (enumerate 0 (states s)))"
  using fold_append_proj [of "\<lambda>T. interaction_efield_triplets T k" "column_entry env s"
          "\<lambda>c. if isArtificial (snd c) then []
                else concat (map (efield_emit env s k c) (enumerate 0 (states s)))"
          "enumerate 0 (states s)" no_triplets]
        fold_append_proj [of "\<lambda>T. interaction_bfield_triplets T k" "column_entry env s"
          "\<lambda>c. if isArtificial (snd c) then []
                else concat (map (bfield_emit env s k c) (enumerate 0 (states s)))"
          "enumerate 0 (states s)" no_triplets]
        fold_append_proj [of "\<lambda>T. interaction_diamagnetism_triplets T kd" "column_entry env s"
          "\<lambda>c. if isArtificial (snd c) then []
                else concat (map (diamagnetism_emit env s kd c) (enumerate 0 (states s)))"
          "enumerate 0 (states s)" no_triplets]
        fold_append_proj [of "\<lambda>T. interaction_multipole_triplets T k" "column_entry env s"
          "\<lambda>c. if isArtificial (snd c) then []
                else concat (map (multipole_emit env s k c) (enumerate 0 (states s)))"
          "enumerate 0 (states s)" no_triplets]
  by (simp_all add: interaction_triplets_def column_entry_proj no_triplets_def)

lemma in_enumerate0: "p \<in> set (enumerate 0 xs) \<longleftrightarrow> fst p < length xs \<and> snd p = xs ! fst p"
  by (cases p) (auto simp: in_set_enumerate_eq)

lemma in_concat_pairs:
  "t \<in> set (concat (map (\<lambda>c. if A c then [] else concat (map (g c) (enumerate 0 xs))) (enumerate 0 xs)))
   \<longleftrightarrow> (\<exists>ci < length xs. \<exists>ri < length xs. \<not> A (ci, xs ! ci) \<and> t \<in> set (g (ci, xs ! ci) (ri, xs ! ri)))"
  (is "?L \<longleftrightarrow> ?R")
proof
  assume ?L
  then obtain c r where c: "c \<in> set (enumerate 0 xs)" and a: "\<not> A c"
    and r: "r \<in> set (enumerate 0 xs)" and t: "t \<in> set (g c r)"
    by (auto split: if_splits)
  from c r have "c = (fst c, xs ! fst c)" "r = (fst r, xs ! fst r)" "fst c < length xs" "fst r < length xs"
    by (auto simp: in_enumerate0 prod_eq_iff)
  with a t show ?R by metis
next
  assume ?R
  then obtain ci ri where b: "ci < length xs" "ri < length xs" and a: "\<not> A (ci, xs ! ci)"
    and t: "t \<in> set (g (ci, xs ! ci) (ri, xs ! ri))"
    by blast
  from b have "(ci, xs ! ci) \<in> set (enumerate 0 xs)" "(ri, xs ! ri) \<in> set (enumerate 0 xs)"
    by (simp_all add: in_enumerate0)
  with a t show ?L by force
qed

lemma efield_guard_fun:
  "efield_guard env (ri, a) (ci, b)
     = (\<lambda>i. \<not> (i = 0 \<and> ri < ci) \<and> selectionRulesMultipoleNew env a b 1 i)"
  by (rule ext) (simp add: efield_guard_def)

lemma bfield_guard_fun:
  "bfield_guard env (ri, a) (ci, b)
     = (\<lambda>i. \<not> (i = 0 \<and> ri < ci) \<and> selectionRulesMomentumNew env a b i)"
  by (rule ext) (simp add: bfield_guard_def)




lemma multipole_triplets_iff:
  "(ri, ci, v) \<in> set (interaction_multipole_triplets (interaction_triplets env s) k) \<longleftrightarrow>
     ri < length (states s) \<and> ci < length (states s)
     \<and> \<not> isArtificial (states s ! ri) \<and> \<not> isArtificial (states s ! ci)
     \<and> charge s \<noteq> 0 \<and> float_to_int (getM (states s ! ri) - getM (states s ! ci)) = 0
     \<and> k \<in> set (orange s)
     \<and> selectionRulesMultipoleNew3 env (states s ! ri) (states s ! ci) k
     \<and> v = complex_of_real (- coulombs_constant env * elementary_charge env
                             * getElectricMultipole env (states s ! ri) (states s ! ci) k)"
  unfolding interaction_triplets_proj in_concat_pairs
  by (auto simp: multipole_emit_def multipole_triplet_def)

lemma sqrt2_sq: "complex_of_real (sqrt 2) * complex_of_real (sqrt 2) = 2"
  by (simp flip: of_real_mult)

lemma cmod_inv_sqrt2: "cmod (1 / complex_of_real (sqrt 2)) = 1 / sqrt 2"
  by (simp add: norm_divide)

lemma sqrt2_less: "sqrt 2 < 1000000000000000000000000"
proof -
  have "sqrt 2 < 2" by (rule real_less_lsqrt) simp_all
  then show ?thesis by simp
qed

lemma sysD_fields:
  "diamagnetism_terms sysD =
     [((0, 0), 2), ((2, 0), 1 / 2), ((2, 1), 1 / complex_of_real (sqrt 2)),
      ((2, - 1), - (1 / complex_of_real (sqrt 2))), ((2, 2), 1 / 2), ((2, - 2), 1 / 2)]"
  "diamagnetism sysD" "interaction_diamagnetism sysD = Map.empty"
  "states sysD = [mkStateOne ''Rb'' 5 0 (1 / 2) (- 1 / 2), mkStateOne ''Rb'' 5 0 (1 / 2) (1 / 2)]"
  "basisvectors sysD = identity2"
  "efield_spherical sysD
     = [(1, - (1 / complex_of_real (sqrt 2))), (- 1, 1 / complex_of_real (sqrt 2)), (0, 1)]"
  "bfield_spherical sysD
     = [(1, - (1 / complex_of_real (sqrt 2))), (- 1, 1 / complex_of_real (sqrt 2)), (0, 1)]"
  "interaction_efield sysD = Map.empty" "interaction_bfield sysD = Map.empty"
  "interaction_multipole sysD = Map.empty" "charge sysD = 1" "ordermax sysD = 1"
  by (simp_all add: sysD_def setBfield_def setEfield_def changeToSphericalbasis_def onParameterChange_def
      newSystemOne_def Let_def set_diamagnetism_terms_def subscript_get_def sqrt2_sq)

lemma sysD_drange: "drange sysD = [(0, 0), (2, 0), (2, 1), (2, 2)]"
  using sqrt2_less
  by (simp add: drange_def sysD_fields tolerance_def cmod_inv_sqrt2 norm_divide field_simps)

lemma sysD_ranges: "erange sysD = [1, 0]" "brange sysD = [1, 0]" "orange sysD = [1]"
  using sqrt2_less
  by (simp_all add: erange_def brange_def orange_def sysD_fields tolerance_def cmod_inv_sqrt2
      norm_divide field_simps)


lemma upt_0_2: "[0..<2] = [0, 1]"
  by (simp add: numeral_2_eq_2)


lemma sysP_fields:
  "efield_spherical sysP = [(1, 0), (- 1, 0), (0, 1)]"
  "interaction_efield sysP = Map.empty"
  "states sysP = [artificial_state, mkStateOne ''Rb'' 5 0 (1 / 2) (1 / 2)]"
  by (simp_all add: sysP_def setEfield_def changeToSphericalbasis_def onParameterChange_def
      newSystemOne_def Let_def)

text \<open>
  C5, as the claim states it, fails: a pair is skipped as soon as one of its two states
  is artificial. In \<open>sysP\<close> the state of index 0 is artificial and the state of index 1 is
  not; the component 0 of the electric field is to be built and the selection rule holds
  for the row 1 and the column 0, yet the only triplet is the one of the pair (1, 1).
\<close>

theorem artificial_pair_counterexample:
  "\<not> (isArtificial (states sysP ! 1) \<and> isArtificial (states sysP ! 0)) \<and>
   erange sysP = [0] \<and>
   selectionRulesMultipoleNew envP (states sysP ! 1) (states sysP ! 0) 1 0 \<and>
   interaction_efield_triplets (interaction_triplets envP sysP) 0 = [(1, 1, 1)]"
proof -
  have e: "erange sysP = [0]"
    by (simp add: erange_def sysP_fields tolerance_def)
  have t: "interaction_efield_triplets (interaction_triplets envP sysP) 0 = [(1, 1, 1)]"
    by (simp add: interaction_triplets_proj sysP_fields e efield_emit_def efield_guard_def
        efield_triplet_def envP_def mkStateOne_def artificial_state_def)
  show ?thesis
    by (simp add: e t) (simp add: sysP_fields envP_def mkStateOne_def artificial_state_def)
qed

lemma enumerate_nth: "enumerate 0 xs = map (\<lambda>i. (i, xs ! i)) [0..<length xs]"
  by (rule nth_equalityI) (simp_all add: nth_enumerate_eq)

lemma float_to_int_zero: "float_to_int x = 0 \<longleftrightarrow> \<bar>x\<bar> < 1"
  unfolding float_to_int_def by (auto simp: floor_eq_iff ceiling_eq_iff)

lemma if_conj_nested: "(if a \<and> b then x else y) = (if a then if b then x else y else y)"
  by simp

lemma if_disj_nested: "(if a \<or> b then x else y) = (if a then x else if b then x else y)"
  by simp

lemma if_not_swap: "(if \<not> a then x else y) = (if a then y else x)"
  by simp

lemma concat_pairs_upt:
  "concat (map (\<lambda>c. if A (snd c) then [] else concat (map (g c) (enumerate 0 xs))) (enumerate 0 xs))
   = concat (map (\<lambda>ci. if \<not> A (xs ! ci)
                         then concat (map (\<lambda>ri. g (ci, xs ! ci) (ri, xs ! ri)) [0..<length xs])
                         else [])
               [0..<length xs])"
  unfolding enumerate_nth by (simp add: comp_def if_not_swap cong: if_cong)

lemma map_filter_concat: "map f (filter P xs) = concat (map (\<lambda>x. if P x then [f x] else []) xs)"
  by (induction xs) simp_all

lemma efield_triplets_list:
  "interaction_efield_triplets (interaction_triplets env s) k =
     [(ri, ci, complex_of_real (getElectricDipole env (states s ! ri) (states s ! ci))).
        ci \<leftarrow> [0..<length (states s)], \<not> isArtificial (states s ! ci),
        ri \<leftarrow> [0..<length (states s)], \<not> isArtificial (states s ! ri),
        find (\<lambda>i. \<not> (i = 0 \<and> ri < ci)
                   \<and> selectionRulesMultipoleNew env (states s ! ri) (states s ! ci) 1 i) (erange s) = Some k]"
  unfolding interaction_triplets_proj concat_pairs_upt
  by (simp add: efield_emit_def efield_guard_fun efield_triplet_def if_conj_nested if_not_swap
      cong: if_cong)

lemma bfield_triplets_list:
  "interaction_bfield_triplets (interaction_triplets env s) k =
     [(ri, ci, complex_of_real (getMagneticDipole env (states s ! ri) (states s ! ci))).
        ci \<leftarrow> [0..<length (states s)], \<not> isArtificial (states s ! ci),
        ri \<leftarrow> [0..<length (states s)], \<not> isArtificial (states s ! ri),
        find (\<lambda>i. \<not> (i = 0 \<and> ri < ci)
                   \<and> selectionRulesMomentumNew env (states s ! ri) (states s ! ci) i) (brange s) = Some k]"
  unfolding interaction_triplets_proj concat_pairs_upt
  by (simp add: bfield_emit_def bfield_guard_fun bfield_triplet_def if_conj_nested if_not_swap
      cong: if_cong)

lemma diamagnetism_triplets_list:
  "interaction_diamagnetism_triplets (interaction_triplets env s) kd =
     [(ri, ci, complex_of_real (1 / (8 * electron_rest_mass env)
                                 * getDiamagnetism env (states s ! ri) (states s ! ci) (fst kd))).
        ci \<leftarrow> [0..<length (states s)], \<not> isArtificial (states s ! ci),
        ri \<leftarrow> [0..<length (states s)], \<not> isArtificial (states s ! ri),
        i \<leftarrow> drange s,
        i = kd \<and> \<not> (snd kd = 0 \<and> ri < ci)
          \<and> selectionRulesMultipoleNew env (states s ! ri) (states s ! ci) (fst kd) (snd kd)]"
  unfolding interaction_triplets_proj concat_pairs_upt
  by (simp add: diamagnetism_emit_def diamagnetism_guard_def diamagnetism_triplet_def
      map_filter_concat if_conj_nested if_not_swap cong: if_cong)

lemma multipole_triplets_list:
  "interaction_multipole_triplets (interaction_triplets env s) k =
     [(ri, ci, complex_of_real (- coulombs_constant env * elementary_charge env
                                 * getElectricMultipole env (states s ! ri) (states s ! ci) k)).
        ci \<leftarrow> [0..<length (states s)], \<not> isArtificial (states s ! ci),
        ri \<leftarrow> [0..<length (states s)], \<not> isArtificial (states s ! ri),
        charge s \<noteq> 0 \<and> float_to_int (getM (states s ! ri) - getM (states s ! ci)) = 0,
        i \<leftarrow> orange s,
        i = k \<and> selectionRulesMultipoleNew3 env (states s ! ri) (states s ! ci) k]"
  unfolding interaction_triplets_proj concat_pairs_upt
  by (simp add: multipole_emit_def multipole_triplet_def map_filter_concat if_conj_nested
      if_disj_nested if_not_swap cong: if_cong)

text \<open>
  C5, amended. The double loop skips a pair exactly when at least one of its two states
  is artificial. The triplets collected for a component or order are, in the order of the
  loops (the columns ci outside, the rows ri inside, both over all the indices), for every
  pair of physical states: for the component k of the electric (magnetic) field one triplet
  (ri, ci, matrix element) when k is the first component to be built whose selection rule
  holds, the component 0 being passed over above the diagonal; for the diamagnetic key kd
  one triplet for each time kd is to be built, when its selection rule holds and the pair
  is not above the diagonal for a zero component (the value is the matrix element divided
  by 8 times the electron mass, which is taken not to be zero); for the multipole order k,
  when the charge is not zero and the difference of the two magnetic quantum numbers,
  converted to an integer, is zero, one triplet for each time k is to be built, when its
  selection rule holds. The converted difference is zero exactly when the two magnetic quantum
  numbers differ by less than one. Nothing else is collected.
\<close>

theorem interaction_triplets_pairs:
  "interaction_efield_triplets (interaction_triplets env s) k =
     [(ri, ci, complex_of_real (getElectricDipole env (states s ! ri) (states s ! ci))).
        ci \<leftarrow> [0..<length (states s)], \<not> isArtificial (states s ! ci),
        ri \<leftarrow> [0..<length (states s)], \<not> isArtificial (states s ! ri),
        find (\<lambda>i. \<not> (i = 0 \<and> ri < ci)
                   \<and> selectionRulesMultipoleNew env (states s ! ri) (states s ! ci) 1 i) (erange s) = Some k] \<and>
   interaction_bfield_triplets (interaction_triplets env s) k =
     [(ri, ci, complex_of_real (getMagneticDipole env (states s ! ri) (states s ! ci))).
        ci \<leftarrow> [0..<length (states s)], \<not> isArtificial (states s ! ci),
        ri \<leftarrow> [0..<length (states s)], \<not> isArtificial (states s ! ri),
        find (\<lambda>i. \<not> (i = 0 \<and> ri < ci)
                   \<and> selectionRulesMomentumNew env (states s ! ri) (states s ! ci) i) (brange s) = Some k] \<and>
   (electron_rest_mass env \<noteq> 0 \<longrightarrow>
    interaction_diamagnetism_triplets (interaction_triplets env s) kd =
     [(ri, ci, complex_of_real (1 / (8 * electron_rest_mass env)
                                 * getDiamagnetism env (states s ! ri) (states s ! ci) (fst kd))).
        ci \<leftarrow> [0..<length (states s)], \<not> isArtificial (states s ! ci),
        ri \<leftarrow> [0..<length (states s)], \<not> isArtificial (states s ! ri),
        i \<leftarrow> drange s,
        i = kd \<and> \<not> (snd kd = 0 \<and> ri < ci)
          \<and> selectionRulesMultipoleNew env (states s ! ri) (states s ! ci) (fst kd) (snd kd)]) \<and>
   interaction_multipole_triplets (interaction_triplets env s) k =
     [(ri, ci, complex_of_real (- coulombs_constant env * elementary_charge env
                                 * getElectricMultipole env (states s ! ri) (states s ! ci) k)).
        ci \<leftarrow> [0..<length (states s)], \<not> isArtificial (states s ! ci),
        ri \<leftarrow> [0..<length (states s)], \<not> isArtificial (states s ! ri),
        charge s \<noteq> 0 \<and> float_to_int (getM (states s ! ri) - getM (states s ! ci)) = 0,
        i \<leftarrow> orange s,
        i = k \<and> selectionRulesMultipoleNew3 env (states s ! ri) (states s ! ci) k] \<and>
   (float_to_int (getM st - getM st') = 0 \<longleftrightarrow> \<bar>getM st - getM st'\<bar> < 1)"
  using efield_triplets_list [of env s k] bfield_triplets_list [of env s k]
    diamagnetism_triplets_list [of env s kd] multipole_triplets_list [of env s k]
    float_to_int_zero [of "getM st - getM st'"]
  by blast

text \<open>
  C5 (amended) on \<open>sysD\<close>, whose two states have the magnetic quantum numbers -1/2 and
  1/2: the diamagnetic key (2, 1) has the one triplet of the pair (1, 0), and the multipole
  order 1 the triplets of the two pairs on the diagonal.
\<close>

theorem interaction_triplets_pairs_witness:
  "electron_rest_mass envD \<noteq> 0 \<and>
   interaction_diamagnetism_triplets (interaction_triplets envD sysD) (2, 1) = [(1, 0, 1 / 8)] \<and>
   interaction_multipole_triplets (interaction_triplets envD sysD) 1 = [(0, 0, - 1), (1, 1, - 1)]"
proof -
  have e: "electron_rest_mass envD \<noteq> 0" by (simp add: envD_def)
  have c: "\<lceil>- 1 :: real\<rceil> = - 1" "\<lfloor>1 :: real\<rfloor> = 1"
    by (simp_all add: ceiling_eq_iff)
  from interaction_triplets_pairs [of envD sysD 1 "(2, 1)" half_state half_state] e
  have "interaction_diamagnetism_triplets (interaction_triplets envD sysD) (2, 1) = [(1, 0, 1 / 8)]"
    and "interaction_multipole_triplets (interaction_triplets envD sysD) 1 = [(0, 0, - 1), (1, 1, - 1)]"
    by (simp_all add: sysD_fields sysD_drange sysD_ranges envD_def mkStateOne_def upt_0_2
      float_to_int_def c)
  with e show ?thesis by simp
qed








section \<open>The errors of \<open>initializeBasis\<close> and the user-defined states\<close>

lemma double_max_gt: "1 < double_max"
proof -
  have "(1::real) \<le> 2 ^ 53 - 1" by simp
  moreover have "(1::real) < 2 ^ 971" by (rule one_less_power) simp_all
  ultimately have "(1::real) * 1 < (2 ^ 53 - 1) * 2 ^ 971"
    by (intro mult_le_less_imp_less) simp_all
  then show ?thesis by (simp add: double_max_def)
qed

text \<open>
  C3, as the claim states it, fails in its second half: with no restriction on n and
  the finite energy window [-1, 1] the build does not succeed, it throws "not yet
  implemented".
\<close>

theorem initializeBasis_energy_window_counterexample:
  "range_n sysN = [] \<and> energy_min sysN \<noteq> double_lowest \<and> energy_max sysN \<noteq> double_max \<and>
   fst (initializeBasis envP sysN) = Some RangeNNotImplemented"
  using double_max_gt
  by (simp add: sysN_def newSystemOne_def initializeBasis_def double_lowest_def)

text \<open>
  C3, amended. Whenever the set of n is empty, \<open>initializeBasis\<close> throws and leaves the
  system as it was: the "basis is infinite" error when the energy window is open on either
  side, and the "not yet implemented" error when the window is finite.
\<close>

theorem initializeBasis_empty_range_n:
  "range_n s = [] \<longrightarrow>
     fst (initializeBasis env s)
       = Some (if energy_min s = double_lowest \<or> energy_max s = double_max
               then BasisInfinite else RangeNNotImplemented) \<and>
     snd (initializeBasis env s) = s"
  by (simp add: initializeBasis_def)

text \<open>
  C3 (amended) on a fresh system, whose energy window is open, and on \<open>sysN\<close>,
  whose window is finite.
\<close>

theorem initializeBasis_empty_range_n_witness:
  "range_n (newSystemOne ''Rb'') = [] \<and>
   initializeBasis envP (newSystemOne ''Rb'') = (Some BasisInfinite, newSystemOne ''Rb'') \<and>
   range_n sysN = [] \<and>
   initializeBasis envP sysN = (Some RangeNNotImplemented, sysN)"
  using initializeBasis_empty_range_n [of "newSystemOne ''Rb''" envP]
    initializeBasis_empty_range_n [of sysN envP] double_max_gt
  by (simp add: prod_eq_iff) (simp add: sysN_def newSystemOne_def double_lowest_def)

lemma foreach_invariant:
  assumes "\<And>x st e st'. x \<in> set xs \<Longrightarrow> P st \<Longrightarrow> body x st = (e, st') \<Longrightarrow> P st'"
    and "P st" and "foreach xs body st = (e, st')"
  shows "P st'"
  using assms
proof (induction xs arbitrary: st)
  case Nil
  then show ?case by simp
next
  case (Cons x xs)
  obtain e1 st1 where b: "body x st = (e1, st1)" by (cases "body x st")
  with Cons.prems(1) [of x st e1 st1] Cons.prems(2) have p1: "P st1" by simp
  show ?case
  proof (cases e1)
    case None
    with b Cons.prems(3) have "foreach xs body st1 = (e, st')" by simp
    with Cons.IH [of st1] Cons.prems(1) p1 show ?thesis by auto
  next
    case (Some a)
    with b Cons.prems(3) have "st' = st1" by simp
    with p1 show ?thesis by simp
  qed
qed

lemma foreach_None_iff:
  assumes "\<And>x st. fst (body x st) = None \<longleftrightarrow> ok x"
  shows "fst (foreach xs body st) = None \<longleftrightarrow> (\<forall>x \<in> set xs. ok x)"
proof (induction xs arbitrary: st)
  case Nil
  then show ?case by simp
next
  case (Cons y ys)
  obtain e1 st1 where b: "body y st = (e1, st1)" by (cases "body y st")
  with assms [of y st] have ok: "ok y \<longleftrightarrow> e1 = None" by simp
  show ?case
  proof (cases e1)
    case None
    with b ok Cons.IH [of st1] show ?thesis by simp
  next
    case (Some a)
    with b ok show ?thesis by simp
  qed
qed

lemma foreach_Some:
  "foreach xs body st = (Some e, st') \<Longrightarrow> \<exists>x \<in> set xs. \<exists>st0. body x st0 = (Some e, st')"
proof (induction xs arbitrary: st)
  case Nil
  then show ?case by simp
next
  case (Cons y ys)
  obtain e1 st1 where b: "body y st = (e1, st1)" by (cases "body y st")
  show ?case
  proof (cases e1)
    case None
    with b Cons.prems have "foreach ys body st1 = (Some e, st')" by simp
    from Cons.IH [OF this] show ?thesis by auto
  next
    case (Some a)
    with b Cons.prems have "body y st = (Some e, st')" by simp
    then show ?thesis by auto
  qed
qed

lemma foreach_established:
  assumes "foreach xs body st0 = (None, st')" and "x \<in> set xs"
    and "\<And>sta stb. body x sta = (None, stb) \<Longrightarrow> Q stb"
    and "\<And>y sta e stb. Q sta \<Longrightarrow> body y sta = (e, stb) \<Longrightarrow> Q stb"
  shows "Q st'"
  using assms(1,2)
proof (induction xs arbitrary: st0)
  case Nil
  then show ?case by simp
next
  case (Cons y ys)
  obtain e1 st1 where b: "body y st0 = (e1, st1)" by (cases "body y st0")
  with Cons.prems(1) have e1: "e1 = None" and rest: "foreach ys body st1 = (None, st')"
    by (cases e1; simp)+
  show ?case
  proof (cases "x \<in> set ys")
    case True
    from Cons.IH [OF rest True] show ?thesis .
  next
    case False
    with Cons.prems(2) have "x = y" by simp
    with b e1 assms(3) have "Q st1" by simp
    with foreach_invariant [of ys Q body st1 None st'] assms(4) rest show ?thesis by blast
  qed
qed

lemma state_index_None: "state_index st xs = None \<longleftrightarrow> st \<notin> set xs"
  by (induction xs) auto

lemma state_index_Some: "state_index st xs = Some r \<Longrightarrow> r < length xs \<and> xs ! r = st"
  by (induction xs arbitrary: r) (auto split: if_splits)

lemma addBasisvectors_states:
  "set (b_states (addBasisvectors st idx val b)) = insert st (set (b_states b))"
proof (cases "state_index st (b_states b)")
  case None
  then show ?thesis by (simp add: addBasisvectors_def)
next
  case (Some row)
  with state_index_None [of st "b_states b"] have "st \<in> set (b_states b)" by auto
  with Some show ?thesis by (auto simp: addBasisvectors_def)
qed

lemma addSymmetrizedBasisvectors_states:
  "set (b_states (addSymmetrizedBasisvectors st energy par b)) =
     set (b_states b)
     \<union> (if par \<noteq> NA \<and> getM st \<noteq> 0
        then (if getM st < 0 then {} else {st, getReflected st})
        else {st})"
  by (auto simp: addSymmetrizedBasisvectors_def Let_def addBasisvectors_states)

lemma preservedD:
  "preserved P \<Longrightarrow> P b \<Longrightarrow> P (addSymmetrizedBasisvectors st energy par b)"
  unfolding preserved_def by blast

lemma m_body_invariant:
  assumes "preserved P" and "P b" and "m_body s n l j energy allowed m b = (e, b')"
  shows "P b'"
proof (cases "b' = b")
  case True
  with assms(2) show ?thesis by simp
next
  case False
  with assms(3)
  have "b' = addSymmetrizedBasisvectors (mkStateOne (species s) n l j m) energy (sym_reflection s) b"
    by (auto simp: m_body_def Let_def split: if_splits)
  with assms(1,2) show ?thesis by (simp add: preservedD)
qed

lemma j_body_invariant:
  assumes "preserved P" and "P b" and "j_body env s spin n l j b = (e, b')"
  shows "P b'"
proof (cases "b' = b")
  case True
  with assms(2) show ?thesis by simp
next
  case False
  with assms(3) obtain ms al
    where "foreach ms (m_body s n l j (getEnergy env (mkStateOne (species s) n l j spin)) al) b = (e, b')"
    by (auto simp: j_body_def Let_def split: if_splits)
  then show ?thesis
    using foreach_invariant [of ms P _ b e b'] m_body_invariant [OF assms(1)] assms(2) by blast
qed

lemma l_body_invariant:
  assumes "preserved P" and "P b" and "l_body env s spin n l b = (e, b')"
  shows "P b'"
proof (cases "b' = b")
  case True
  with assms(2) show ?thesis by simp
next
  case False
  with assms(3) obtain js where "foreach js (j_body env s spin n l) b = (e, b')"
    by (auto simp: l_body_def Let_def split: if_splits)
  then show ?thesis
    using foreach_invariant [of js P _ b e b'] j_body_invariant [OF assms(1)] assms(2) by blast
qed

lemma n_body_invariant:
  assumes "preserved P" and "P b" and "n_body env s spin n b = (e, b')"
  shows "P b'"
proof -
  from assms(3) obtain ls where "foreach ls (l_body env s spin n) b = (e, b')"
    by (auto simp: n_body_def Let_def)
  then show ?thesis
    using foreach_invariant [of ls P _ b e b'] l_body_invariant [OF assms(1)] assms(2) by blast
qed

lemma enumeration_invariant:
  assumes "preserved P" and "P (build_start s)" and "enumeration env s = (e, b')"
  shows "P b'"
  using foreach_invariant [of "range_n s" P _ "build_start s" e b'] n_body_invariant [OF assms(1)]
    assms(2,3)
  unfolding enumeration_def by blast

lemma user_body_invariant:
  assumes "preserved P" and "P b" and "user_body env s st b = (e, b')"
  shows "P b'"
proof (cases "b' = b")
  case True
  with assms(2) show ?thesis by simp
next
  case False
  with assms(3) obtain energy par where "b' = addSymmetrizedBasisvectors st energy par b"
    by (auto simp: user_body_def Let_def split: if_splits)
  with assms(1,2) show ?thesis by (simp add: preservedD)
qed

lemma user_loop_invariant:
  assumes "preserved P" and "P b" and "foreach us (user_body env s) b = (e, b')"
  shows "P b'"
  using foreach_invariant [of us P _ b e b'] user_body_invariant [OF assms(1)] assms(2,3) by blast

lemma preserved_grows: "preserved (\<lambda>x. A \<subseteq> set (b_states x))"
  unfolding preserved_def by (auto simp: addSymmetrizedBasisvectors_states)

lemma enumeration_grows:
  "set (states s) \<subseteq> set (b_states (snd (enumeration env s)))"
  using enumeration_invariant [OF preserved_grows, of "set (states s)" s env
      "fst (enumeration env s)" "snd (enumeration env s)"]
  by (simp add: build_start_def)

lemma user_body_grows:
  "user_body env s st b = (e, b') \<Longrightarrow> A \<subseteq> set (b_states b) \<Longrightarrow> A \<subseteq> set (b_states b')"
  using user_body_invariant [OF preserved_grows, of A b env s st e b']
  by simp

lemma check_body_same: "check_body s st b = (e, b') \<Longrightarrow> b' = b"
  by (auto simp: check_body_def split: if_splits)

lemma foreach_check_None:
  "fst (foreach xs (check_body s) b) = None \<longleftrightarrow>
     (\<forall>st \<in> set xs. st \<notin> set (b_states b) \<and> (isArtificial st \<or> getSpecies st = species s))"
  by (induction xs) (auto simp: check_body_def)

lemma foreach_check_same: "foreach xs (check_body s) b = (e, b') \<Longrightarrow> b' = b"
  using foreach_invariant [where P = "\<lambda>x. x = b" and body = "check_body s" and xs = xs
      and st = b and e = e and st' = b'] check_body_same
  by blast

lemma foreach_check_Some:
  assumes "foreach xs (check_body s) b = (Some e, b')"
  shows "\<exists>st \<in> set xs. (e = StateAlreadyContained st \<and> st \<in> set (b_states b))
            \<or> (e = StateWrongSpecies st \<and> \<not> isArtificial st \<and> getSpecies st \<noteq> species s)"
proof -
  from foreach_Some [OF assms] obtain st b0 where m: "st \<in> set xs"
    and c: "check_body s st b0 = (Some e, b')" by blast
  from c have "b0 = b'" by (auto simp: check_body_def split: if_splits)
  moreover from assms have "b' = b" by (rule foreach_check_same)
  ultimately have "check_body s st b = (Some e, b)" using c by simp
  then have "(e = StateAlreadyContained st \<and> st \<in> set (b_states b))
            \<or> (e = StateWrongSpecies st \<and> \<not> isArtificial st \<and> getSpecies st \<noteq> species s)"
    by (auto simp: check_body_def split: if_splits)
  with m show ?thesis by blast
qed

lemma getReflected_twice: "getReflected (getReflected st) = st"
  by (simp add: getReflected_def)

lemma user_body_None:
  "fst (user_body env s st b) = None \<longleftrightarrow>
     (kept_by_rotation s st \<and> needs_partner s st \<longrightarrow> getReflected st \<in> set (states_to_add s))"
  by (auto simp: user_body_def Let_def kept_by_rotation_def needs_partner_def)

lemma user_body_Some:
  "user_body env s st b = (Some e, b') \<Longrightarrow>
     e = ReflectedStateNotFound (getReflected st) \<and> kept_by_rotation s st \<and> needs_partner s st
     \<and> getReflected st \<notin> set (states_to_add s)"
  by (auto simp: user_body_def Let_def kept_by_rotation_def needs_partner_def split: if_splits)

lemma user_loop_None:
  "fst (foreach xs (user_body env s) b) = None \<longleftrightarrow>
     (\<forall>st \<in> set xs. kept_by_rotation s st \<and> needs_partner s st
                       \<longrightarrow> getReflected st \<in> set (states_to_add s))"
  by (rule foreach_None_iff) (rule user_body_None)

lemma user_body_partner:
  "kept_by_rotation s st \<Longrightarrow> needs_partner s st \<Longrightarrow> user_body env s st b = (None, b') \<Longrightarrow>
   getReflected st \<in> set (states_to_add s)"
  using user_body_None [of env s st b] by simp

lemma user_body_registers_self:
  "kept_by_rotation s st \<Longrightarrow> \<not> needs_partner s st \<or> 0 \<le> getM st \<Longrightarrow>
   user_body env s st b = (None, b') \<Longrightarrow> st \<in> set (b_states b')"
  by (auto simp: user_body_def Let_def addSymmetrizedBasisvectors_states kept_by_rotation_def
      needs_partner_def split: if_splits)

lemma user_body_registers_mirror:
  "kept_by_rotation s st \<Longrightarrow> needs_partner s st \<Longrightarrow> 0 < getM st \<Longrightarrow>
   user_body env s st b = (None, b') \<Longrightarrow> getReflected st \<in> set (b_states b')"
  by (auto simp: user_body_def Let_def addSymmetrizedBasisvectors_states kept_by_rotation_def
      needs_partner_def split: if_splits)

lemma user_body_registers_only:
  "user_body env s x b = (e, b') \<Longrightarrow> t \<in> set (b_states b') \<Longrightarrow>
   t \<in> set (b_states b)
   \<or> (kept_by_rotation s x \<and> (t = x \<or> (t = getReflected x \<and> needs_partner s x)))"
  by (auto simp: user_body_def Let_def addSymmetrizedBasisvectors_states kept_by_rotation_def
      needs_partner_def split: if_splits)

lemma initializeBasis_cases:
  assumes n: "range_n s \<noteq> []" and en: "enumeration env s = (None, b)"
  shows "initializeBasis env s =
     (case foreach (states_to_add s) (check_body s) b of
        (Some e, b1) \<Rightarrow> (Some e, s\<lparr>states := b_states b\<rparr>)
      | (None, b1) \<Rightarrow>
          (case foreach (states_to_add s) (user_body env s) b of
             (Some e, b2) \<Rightarrow> (Some e, s\<lparr>states := b_states b2\<rparr>)
           | (None, b2) \<Rightarrow> (None, build_data s b2)))"
proof -
  obtain e1 b1 where 2: "foreach (states_to_add s) (check_body s) b = (e1, b1)"
    by (cases "foreach (states_to_add s) (check_body s) b")
  then have b1: "b1 = b" by (rule foreach_check_same)
  show ?thesis
    using n en 2 b1 by (cases e1) (simp_all add: initializeBasis_def)
qed

lemma initializeBasis_enumeration_error:
  "range_n s \<noteq> [] \<Longrightarrow> enumeration env s = (Some e, b) \<Longrightarrow>
   initializeBasis env s = (Some e, s\<lparr>states := b_states b\<rparr>)"
  by (simp add: initializeBasis_def)

lemma initializeBasis_success:
  assumes "initializeBasis env s = (None, s')"
  shows "range_n s \<noteq> [] \<and> fst (enumeration env s) = None
        \<and> fst (foreach (states_to_add s) (check_body s) (snd (enumeration env s))) = None
        \<and> (\<exists>b2. foreach (states_to_add s) (user_body env s) (snd (enumeration env s)) = (None, b2)
               \<and> s' = build_data s b2)"
proof -
  from assms have n: "range_n s \<noteq> []" by (auto simp: initializeBasis_def split: if_splits)
  obtain e b where 1: "enumeration env s = (e, b)" by (cases "enumeration env s")
  with assms n have e: "e = None" by (cases e) (simp_all add: initializeBasis_def)
  obtain e1 b1 where 2: "foreach (states_to_add s) (check_body s) b = (e1, b1)"
    by (cases "foreach (states_to_add s) (check_body s) b")
  obtain e2 b2 where 3: "foreach (states_to_add s) (user_body env s) b = (e2, b2)"
    by (cases "foreach (states_to_add s) (user_body env s) b")
  from assms initializeBasis_cases [OF n 1 [unfolded e]] 2 3
  have "e1 = None \<and> e2 = None \<and> s' = build_data s b2"
    by (cases e1; cases e2; simp)
  with n 1 e 2 3 show ?thesis by simp
qed

lemma initializeBasis_None_iff:
  assumes n: "range_n s \<noteq> []" and en: "fst (enumeration env s) = None"
  shows "fst (initializeBasis env s) = None \<longleftrightarrow>
     (\<forall>st \<in> set (states_to_add s).
         st \<notin> set (b_states (snd (enumeration env s)))
         \<and> (isArtificial st \<or> getSpecies st = species s)
         \<and> (kept_by_rotation s st \<and> needs_partner s st
              \<longrightarrow> getReflected st \<in> set (states_to_add s)))"
proof -
  let ?b = "snd (enumeration env s)"
  from en have 1: "enumeration env s = (None, ?b)" by (simp add: prod_eq_iff)
  obtain e1 b1 where 2: "foreach (states_to_add s) (check_body s) ?b = (e1, b1)"
    by (cases "foreach (states_to_add s) (check_body s) ?b")
  obtain e2 b2 where 3: "foreach (states_to_add s) (user_body env s) ?b = (e2, b2)"
    by (cases "foreach (states_to_add s) (user_body env s) ?b")
  have "fst (initializeBasis env s) = None \<longleftrightarrow> e1 = None \<and> e2 = None"
    unfolding initializeBasis_cases [OF n 1] using 2 3 by (cases e1; cases e2; simp)
  with 2 3 have "fst (initializeBasis env s) = None \<longleftrightarrow>
      fst (foreach (states_to_add s) (check_body s) ?b) = None
      \<and> fst (foreach (states_to_add s) (user_body env s) ?b) = None"
    by simp
  then show ?thesis
    unfolding foreach_check_None user_loop_None by blast
qed

lemma initializeBasis_error:
  assumes n: "range_n s \<noteq> []" and en: "fst (enumeration env s) = None"
    and err: "fst (initializeBasis env s) = Some e"
  shows "\<exists>st \<in> set (states_to_add s).
      (e = StateAlreadyContained st \<and> st \<in> set (b_states (snd (enumeration env s))))
      \<or> (e = StateWrongSpecies st \<and> \<not> isArtificial st \<and> getSpecies st \<noteq> species s)
      \<or> (e = ReflectedStateNotFound (getReflected st) \<and> kept_by_rotation s st \<and> needs_partner s st
           \<and> getReflected st \<notin> set (states_to_add s))"
proof -
  let ?b = "snd (enumeration env s)"
  from en have 1: "enumeration env s = (None, ?b)" by (simp add: prod_eq_iff)
  obtain e1 b1 where 2: "foreach (states_to_add s) (check_body s) ?b = (e1, b1)"
    by (cases "foreach (states_to_add s) (check_body s) ?b")
  obtain e2 b2 where 3: "foreach (states_to_add s) (user_body env s) ?b = (e2, b2)"
    by (cases "foreach (states_to_add s) (user_body env s) ?b")
  show ?thesis
  proof (cases e1)
    case (Some a)
    with err 2 have "a = e" unfolding initializeBasis_cases [OF n 1] by simp
    with Some 2 foreach_check_Some [of "states_to_add s" s ?b e b1] show ?thesis by blast
  next
    case None
    with err 2 3 have "e2 = Some e" unfolding initializeBasis_cases [OF n 1] by (cases e2) simp_all
    with 3 foreach_Some [of "states_to_add s" "user_body env s" ?b e b2]
    obtain st b0 where "st \<in> set (states_to_add s)" "user_body env s st b0 = (Some e, b2)"
      by blast
    with user_body_Some [of env s st b0 e b2] show ?thesis by blast
  qed
qed

lemma initializeBasis_user_registered:
  assumes ok: "initializeBasis env s = (None, s')"
    and compat: "isRefelectionAndRotationCompatible s"
    and mem: "st \<in> set (states_to_add s)"
    and pass: "kept_by_rotation s st"
  shows "st \<in> set (states s')"
proof -
  from initializeBasis_success [OF ok] obtain b2
    where 3: "foreach (states_to_add s) (user_body env s) (snd (enumeration env s)) = (None, b2)"
      and s': "s' = build_data s b2"
    by blast
  have keep: "\<And>t y sta e stb. t \<in> set (b_states sta) \<Longrightarrow> user_body env s y sta = (e, stb)
                \<Longrightarrow> t \<in> set (b_states stb)"
    using user_body_grows by blast
  have "st \<in> set (b_states b2)"
  proof (cases "\<not> needs_partner s st \<or> 0 \<le> getM st")
    case True
    show ?thesis
      by (rule foreach_established [OF 3 mem, of "\<lambda>x. st \<in> set (b_states x)"])
         (use user_body_registers_self [OF pass True] keep in blast)+
  next
    case False
    then have f: "needs_partner s st" "getM st < 0" by auto
    have r: "getReflected st \<in> set (states_to_add s)"
      by (rule foreach_established [OF 3 mem, of "\<lambda>x. getReflected st \<in> set (states_to_add s)"])
         (use user_body_partner [OF pass f(1)] in auto)
    have rp: "kept_by_rotation s (getReflected st)"
      using pass compat f(1)
      by (auto simp: isRefelectionAndRotationCompatible_def getReflected_def list_all_iff
          kept_by_rotation_def needs_partner_def split: if_splits)
    have ra: "needs_partner s (getReflected st)" "0 < getM (getReflected st)"
      using f by (simp_all add: getReflected_def needs_partner_def)
    have "getReflected (getReflected st) \<in> set (b_states b2)"
      by (rule foreach_established [OF 3 r, of "\<lambda>x. getReflected (getReflected st) \<in> set (b_states x)"])
         (use user_body_registers_mirror [OF rp ra] keep in blast)+
    then show ?thesis by (simp add: getReflected_twice)
  qed
  with s' show ?thesis by (simp add: build_data_def)
qed

lemma initializeBasis_user_dropped:
  assumes ok: "initializeBasis env s = (None, s')"
    and compat: "isRefelectionAndRotationCompatible s"
    and mem: "st \<in> set (states_to_add s)"
    and drop: "\<not> kept_by_rotation s st"
  shows "st \<notin> set (states s')"
proof
  assume reg: "st \<in> set (states s')"
  let ?b = "snd (enumeration env s)"
  from initializeBasis_success [OF ok] obtain b2
    where 2: "fst (foreach (states_to_add s) (check_body s) ?b) = None"
      and 3: "foreach (states_to_add s) (user_body env s) ?b = (None, b2)"
      and s': "s' = build_data s b2"
    by blast
  from 2 mem have new: "st \<notin> set (b_states ?b)" unfolding foreach_check_None by blast
  let ?P = "\<lambda>x. \<forall>t \<in> set (b_states x). t \<in> set (b_states ?b)
      \<or> (\<exists>u. kept_by_rotation s u \<and> (t = u \<or> (t = getReflected u \<and> needs_partner s u)))"
  have "?P b2"
  proof (rule foreach_invariant [of "states_to_add s" ?P "user_body env s" ?b None b2])
    show "?P ?b" by simp
    show "foreach (states_to_add s) (user_body env s) ?b = (None, b2)" by (rule 3)
  next
    fix x sta e stb
    assume p: "?P sta" and u: "user_body env s x sta = (e, stb)"
    show "?P stb"
    proof
      fix t
      assume "t \<in> set (b_states stb)"
      from user_body_registers_only [OF u this] p
      show "t \<in> set (b_states ?b)
        \<or> (\<exists>u. kept_by_rotation s u \<and> (t = u \<or> (t = getReflected u \<and> needs_partner s u)))"
        by blast
    qed
  qed
  with reg s' new obtain u where u: "kept_by_rotation s u"
    "st = u \<or> (st = getReflected u \<and> needs_partner s u)"
    by (auto simp: build_data_def)
  with drop have m: "st = getReflected u" "needs_partner s u" by auto
  with u(1) drop compat show False
    by (auto simp: isRefelectionAndRotationCompatible_def getReflected_def list_all_iff
        kept_by_rotation_def needs_partner_def split: if_splits)
qed

lemma initializeBasis_fails:
  assumes "st \<in> set (states_to_add s)"
    and "st \<in> set (b_states (snd (enumeration env s)))
         \<or> (\<not> isArtificial st \<and> getSpecies st \<noteq> species s)
         \<or> (\<not> isArtificial st
             \<and> (ARB \<in> set (sym_rotation s) \<or> getM st \<in> set (sym_rotation s))
             \<and> sym_reflection s \<noteq> NA \<and> getM st \<noteq> 0
             \<and> getReflected st \<notin> set (states_to_add s))"
  shows "fst (initializeBasis env s) \<noteq> None"
proof (cases "range_n s = []")
  case True
  then show ?thesis by (simp add: initializeBasis_def)
next
  case False
  show ?thesis
  proof (cases "fst (enumeration env s)")
    case (Some e)
    then have "enumeration env s = (Some e, snd (enumeration env s))" by (simp add: prod_eq_iff)
    from initializeBasis_enumeration_error [OF False this] show ?thesis by simp
  next
    case None
    have k: "kept_by_rotation s st \<and> needs_partner s st \<longleftrightarrow>
      \<not> isArtificial st \<and> (ARB \<in> set (sym_rotation s) \<or> getM st \<in> set (sym_rotation s))
      \<and> sym_reflection s \<noteq> NA \<and> getM st \<noteq> 0"
      by (auto simp: kept_by_rotation_def needs_partner_def)
    from assms k show ?thesis
      unfolding initializeBasis_None_iff [OF False None] by blast
  qed
qed

text \<open>
  C8, amended. \<open>initializeBasis\<close> fails whenever a user-defined state is in the registry
  that the loop over the specified quantum numbers leaves (the states registered before the
  call and those it enumerated), or is physical and of another species than the system, or
  is physical with a momentum kept by the rotation symmetry (unrestricted momenta, or m among
  the conserved momenta) while reflection symmetry is active, m \<noteq> 0 and its mirror partner
  is not among the user-defined states. When that loop has returned without an exception,
  these are the only failures: the build succeeds exactly when none of the user-defined
  states is one of the three kinds, and the error of a failure is that of a user-defined
  state, "already contained" for one in the registry, "wrong species" for a physical one of
  another species, or "required by symmetries cannot be found", naming the mirror partner of
  a state that misses it. Whenever the build succeeds, for compatible symmetries, a
  user-defined state is registered exactly when it is artificial or the rotation symmetry
  keeps its m, whatever its n, l and j: the others are dropped without an error.
\<close>

theorem initializeBasis_user_states:
  "((\<exists>st \<in> set (states_to_add s).
        st \<in> set (b_states (snd (enumeration env s)))
        \<or> (\<not> isArtificial st \<and> getSpecies st \<noteq> species s)
        \<or> (\<not> isArtificial st
            \<and> (ARB \<in> set (sym_rotation s) \<or> getM st \<in> set (sym_rotation s))
            \<and> sym_reflection s \<noteq> NA \<and> getM st \<noteq> 0
            \<and> getReflected st \<notin> set (states_to_add s)))
      \<longrightarrow> fst (initializeBasis env s) \<noteq> None) \<and>
   set (states s) \<subseteq> set (b_states (snd (enumeration env s))) \<and>
   (range_n s \<noteq> [] \<and> fst (enumeration env s) = None \<longrightarrow>
     (fst (initializeBasis env s) = None \<longleftrightarrow>
        (\<forall>st \<in> set (states_to_add s).
            st \<notin> set (b_states (snd (enumeration env s)))
            \<and> (isArtificial st \<or> getSpecies st = species s)
            \<and> (\<not> isArtificial st
                 \<and> (ARB \<in> set (sym_rotation s) \<or> getM st \<in> set (sym_rotation s))
                 \<and> sym_reflection s \<noteq> NA \<and> getM st \<noteq> 0
                 \<longrightarrow> getReflected st \<in> set (states_to_add s)))) \<and>
     (\<forall>e. fst (initializeBasis env s) = Some e \<longrightarrow>
        (\<exists>st \<in> set (states_to_add s).
            (e = StateAlreadyContained st \<and> st \<in> set (b_states (snd (enumeration env s))))
            \<or> (e = StateWrongSpecies st \<and> \<not> isArtificial st \<and> getSpecies st \<noteq> species s)
            \<or> (e = ReflectedStateNotFound (getReflected st) \<and> \<not> isArtificial st
                 \<and> (ARB \<in> set (sym_rotation s) \<or> getM st \<in> set (sym_rotation s))
                 \<and> sym_reflection s \<noteq> NA \<and> getM st \<noteq> 0
                 \<and> getReflected st \<notin> set (states_to_add s))))) \<and>
   (fst (initializeBasis env s) = None \<and> isRefelectionAndRotationCompatible s \<longrightarrow>
      (\<forall>st \<in> set (states_to_add s).
          st \<in> set (states (snd (initializeBasis env s)))
          \<longleftrightarrow> isArtificial st \<or> ARB \<in> set (sym_rotation s) \<or> getM st \<in> set (sym_rotation s)))"
proof -
  have k: "\<And>st. kept_by_rotation s st \<and> needs_partner s st \<longleftrightarrow>
      \<not> isArtificial st \<and> (ARB \<in> set (sym_rotation s) \<or> getM st \<in> set (sym_rotation s))
      \<and> sym_reflection s \<noteq> NA \<and> getM st \<noteq> 0"
    by (auto simp: kept_by_rotation_def needs_partner_def)
  have s: "fst (initializeBasis env s) = None \<Longrightarrow> initializeBasis env s = (None, snd (initializeBasis env s))"
    by (simp add: prod_eq_iff)
  have 0: "(\<exists>st \<in> set (states_to_add s).
        st \<in> set (b_states (snd (enumeration env s)))
        \<or> (\<not> isArtificial st \<and> getSpecies st \<noteq> species s)
        \<or> (\<not> isArtificial st
            \<and> (ARB \<in> set (sym_rotation s) \<or> getM st \<in> set (sym_rotation s))
            \<and> sym_reflection s \<noteq> NA \<and> getM st \<noteq> 0
            \<and> getReflected st \<notin> set (states_to_add s)))
      \<longrightarrow> fst (initializeBasis env s) \<noteq> None"
    using initializeBasis_fails [of _ s env] by blast
  have 1: "set (states s) \<subseteq> set (b_states (snd (enumeration env s)))"
    by (rule enumeration_grows)
  have 2: "range_n s \<noteq> [] \<and> fst (enumeration env s) = None \<longrightarrow>
     (fst (initializeBasis env s) = None \<longleftrightarrow>
        (\<forall>st \<in> set (states_to_add s).
            st \<notin> set (b_states (snd (enumeration env s)))
            \<and> (isArtificial st \<or> getSpecies st = species s)
            \<and> (\<not> isArtificial st
                 \<and> (ARB \<in> set (sym_rotation s) \<or> getM st \<in> set (sym_rotation s))
                 \<and> sym_reflection s \<noteq> NA \<and> getM st \<noteq> 0
                 \<longrightarrow> getReflected st \<in> set (states_to_add s))))"
  proof
    assume a: "range_n s \<noteq> [] \<and> fst (enumeration env s) = None"
    then have n: "range_n s \<noteq> []" and e: "fst (enumeration env s) = None" by simp_all
    show "fst (initializeBasis env s) = None \<longleftrightarrow>
        (\<forall>st \<in> set (states_to_add s).
            st \<notin> set (b_states (snd (enumeration env s)))
            \<and> (isArtificial st \<or> getSpecies st = species s)
            \<and> (\<not> isArtificial st
                 \<and> (ARB \<in> set (sym_rotation s) \<or> getM st \<in> set (sym_rotation s))
                 \<and> sym_reflection s \<noteq> NA \<and> getM st \<noteq> 0
                 \<longrightarrow> getReflected st \<in> set (states_to_add s)))"
      unfolding initializeBasis_None_iff [OF n e] k ..
  qed
  have 3: "range_n s \<noteq> [] \<and> fst (enumeration env s) = None \<longrightarrow>
     (\<forall>e. fst (initializeBasis env s) = Some e \<longrightarrow>
        (\<exists>st \<in> set (states_to_add s).
            (e = StateAlreadyContained st \<and> st \<in> set (b_states (snd (enumeration env s))))
            \<or> (e = StateWrongSpecies st \<and> \<not> isArtificial st \<and> getSpecies st \<noteq> species s)
            \<or> (e = ReflectedStateNotFound (getReflected st) \<and> \<not> isArtificial st
                 \<and> (ARB \<in> set (sym_rotation s) \<or> getM st \<in> set (sym_rotation s))
                 \<and> sym_reflection s \<noteq> NA \<and> getM st \<noteq> 0
                 \<and> getReflected st \<notin> set (states_to_add s))))"
    using initializeBasis_error [of s env] k by (metis (no_types, lifting))
  have 4: "fst (initializeBasis env s) = None \<and> isRefelectionAndRotationCompatible s \<longrightarrow>
        (\<forall>st \<in> set (states_to_add s).
            st \<in> set (states (snd (initializeBasis env s)))
            \<longleftrightarrow> isArtificial st \<or> ARB \<in> set (sym_rotation s) \<or> getM st \<in> set (sym_rotation s))"
    using s initializeBasis_user_registered [of env s _ ] initializeBasis_user_dropped [of env s _ ]
    unfolding kept_by_rotation_def by blast
  from 0 1 2 3 4 show ?thesis by blast
qed

lemma sysU_fields:
  "range_n sysU = [1]" "range_l sysU = [5]" "states sysU = []" "states_to_add sysU = [user_state]"
  "sym_reflection sysU = EVEN" "sym_rotation sysU = [- 1 / 2, 1 / 2]" "species sysU = ''Rb''"
  by (simp_all add: sysU_def newSystemOne_def)

lemma sysV_fields:
  "range_n sysV = [1]" "range_l sysV = [5]" "states sysV = []" "states_to_add sysV = [user_state]"
  "sym_reflection sysV = EVEN" "sym_rotation sysV = [ARB]" "species sysV = ''Rb''"
  by (simp_all add: sysV_def sysU_def newSystemOne_def)

lemma sysX_fields:
  "range_n sysX = [1]" "range_l sysX = [5]" "states sysX = []" "states_to_add sysX = [user_state]"
  "sym_reflection sysX = NA" "sym_rotation sysX = [ARB]" "species sysX = ''Rb''"
  by (simp_all add: sysX_def sysU_def newSystemOne_def)

lemma sysU_enumeration: "enumeration env sysU = (None, build_start sysU)"
  by (simp add: enumeration_def sysU_fields n_body_def l_body_def)

lemma sysV_enumeration: "enumeration env sysV = (None, build_start sysV)"
  by (simp add: enumeration_def sysV_fields n_body_def l_body_def)

lemma sysX_enumeration: "enumeration env sysX = (None, build_start sysX)"
  by (simp add: enumeration_def sysX_fields n_body_def l_body_def)

lemma sysU_build:
  "initializeBasis envP sysU = (None, build_data sysU (build_start sysU))"
  by (simp add: initializeBasis_def sysU_enumeration)
     (simp add: sysU_fields check_body_def user_body_def user_state_def mkStateOne_def
       build_start_def ARB_def)

text \<open>
  C8, as the claim states it, fails: in \<open>sysU\<close> reflection symmetry is active and the
  user-defined state has m = 3/2 and no mirror partner among the user-defined states, yet
  the build succeeds; the state is dropped by the rotation symmetry, which keeps the
  momenta -1/2 and 1/2 only, before its partner is looked for, and it is not registered.
\<close>

theorem user_state_skipped_counterexample:
  "states_to_add sysU = [user_state] \<and> \<not> isArtificial user_state \<and>
   sym_reflection sysU \<noteq> NA \<and> getM user_state \<noteq> 0 \<and>
   getReflected user_state \<notin> set (states_to_add sysU) \<and>
   fst (initializeBasis envP sysU) = None \<and>
   states (snd (initializeBasis envP sysU)) = []"
  by (simp add: sysU_build)
     (simp add: sysU_fields build_data_def build_start_def user_state_def mkStateOne_def
       getReflected_def)

lemma spin_Rb: "spin_of_species ''Rb'' = 1 / 2"
  by (simp add: spin_of_species_def isdigit_def)

lemma range_float_half: "range_float (1 / 2) (1 / 2) = [1 / 2]"
  by (simp add: range_float_def)

lemma sysC_fields:
  "range_n sysC = [5]" "range_l sysC = [0]" "range_j sysC = []" "range_m sysC = [1 / 2]"
  "states sysC = []" "states_to_add sysC = [half_state]"
  "sym_reflection sysC = NA" "sym_rotation sysC = [ARB]" "species sysC = ''Rb''"
  "energy_min sysC = double_lowest"  "energy_max sysC = double_max"
  by (simp_all add: sysC_def newSystemOne_def)

lemma sysC_enumeration:
  "enumeration envP sysC =
     (None, \<lparr>b_states = [half_state], b_idx = 1, basisvectors_triplets = [(0, 0, Some 1)],
             hamiltonian_triplets = [(0, 0, 0)]\<rparr>)"
  apply (simp add: enumeration_def sysC_fields spin_Rb n_body_def range_int_def l_body_def
      range_float_half j_body_def checkIsEnergyValid_def Let_def)
  apply (simp add: m_body_def mkStateOne_def sysC_fields addSymmetrizedBasisvectors_def Let_def
      build_start_def addBasisvectors_def half_state_def envP_def)
  done

text \<open>
  C8 (amended) on four systems: \<open>sysC\<close>, whose user-defined state is not registered
  before the call but is enumerated, so that the build fails with "already contained";
  \<open>sysV\<close>, where the mirror partner is missed; \<open>sysU\<close>, where the user-defined state is
  dropped by the rotation symmetry and the build succeeds without it; and \<open>sysX\<close>, where it
  is registered.
\<close>

theorem initializeBasis_user_states_witness:
  "range_n sysC \<noteq> [] \<and> fst (enumeration envP sysC) = None \<and>
   states sysC = [] \<and> states_to_add sysC = [half_state] \<and>
   half_state \<in> set (b_states (snd (enumeration envP sysC))) \<and>
   fst (initializeBasis envP sysC) = Some (StateAlreadyContained half_state) \<and>
   range_n sysV \<noteq> [] \<and> fst (enumeration envP sysV) = None \<and>
   states_to_add sysV = [user_state] \<and> \<not> isArtificial user_state \<and>
   ARB \<in> set (sym_rotation sysV) \<and> sym_reflection sysV \<noteq> NA \<and> getM user_state \<noteq> 0 \<and>
   getReflected user_state \<notin> set (states_to_add sysV) \<and>
   fst (initializeBasis envP sysV) = Some (ReflectedStateNotFound (getReflected user_state)) \<and>
   range_n sysU \<noteq> [] \<and> fst (enumeration envP sysU) = None \<and>
   states_to_add sysU = [user_state] \<and>
   isRefelectionAndRotationCompatible sysU \<and>
   ARB \<notin> set (sym_rotation sysU) \<and> getM user_state \<notin> set (sym_rotation sysU) \<and>
   fst (initializeBasis envP sysU) = None \<and>
   user_state \<notin> set (states (snd (initializeBasis envP sysU))) \<and>
   range_n sysX \<noteq> [] \<and> fst (enumeration envP sysX) = None \<and>
   states_to_add sysX = [user_state] \<and>
   isRefelectionAndRotationCompatible sysX \<and> ARB \<in> set (sym_rotation sysX) \<and>
   fst (initializeBasis envP sysX) = None \<and>
   user_state \<in> set (states (snd (initializeBasis envP sysX)))"
proof -
  have c: "range_n sysC \<noteq> []" "fst (enumeration envP sysC) = None" "states sysC = []"
    "states_to_add sysC = [half_state]"
    "half_state \<in> set (b_states (snd (enumeration envP sysC)))"
    "sym_reflection sysC = NA" "getSpecies half_state = species sysC"
    by (simp_all add: sysC_fields sysC_enumeration half_state_def mkStateOne_def)
  have v: "range_n sysV \<noteq> []" "fst (enumeration envP sysV) = None"
    "states_to_add sysV = [user_state]" "\<not> isArtificial user_state"
    "ARB \<in> set (sym_rotation sysV)" "sym_reflection sysV \<noteq> NA" "getM user_state \<noteq> 0"
    "getReflected user_state \<notin> set (states_to_add sysV)"
    "user_state \<notin> set (b_states (snd (enumeration envP sysV)))"
    "getSpecies user_state = species sysV"
    by (simp_all add: sysV_fields sysV_enumeration
        user_state_def mkStateOne_def getReflected_def build_start_def)
  have u: "range_n sysU \<noteq> []" "fst (enumeration envP sysU) = None"
    "states_to_add sysU = [user_state]"
    "isRefelectionAndRotationCompatible sysU"
    "ARB \<notin> set (sym_rotation sysU)" "getM user_state \<notin> set (sym_rotation sysU)"
    "user_state \<notin> set (b_states (snd (enumeration envP sysU)))"
    "getSpecies user_state = species sysU" "\<not> isArtificial user_state"
    by (simp_all add: sysU_fields sysU_enumeration
        isRefelectionAndRotationCompatible_def ARB_def
        user_state_def mkStateOne_def getReflected_def build_start_def)
  have x: "range_n sysX \<noteq> []" "fst (enumeration envP sysX) = None"
    "states_to_add sysX = [user_state]"
    "isRefelectionAndRotationCompatible sysX" "ARB \<in> set (sym_rotation sysX)"
    "sym_reflection sysX = NA"
    "user_state \<notin> set (b_states (snd (enumeration envP sysX)))"
    "getSpecies user_state = species sysX"
    by (simp_all add: sysX_fields sysX_enumeration
        isRefelectionAndRotationCompatible_def
        user_state_def mkStateOne_def getReflected_def build_start_def)
  have 1: "fst (initializeBasis envP sysC) = Some (StateAlreadyContained half_state)"
    using initializeBasis_user_states [of sysC envP] c by auto
  have 2: "fst (initializeBasis envP sysV) = Some (ReflectedStateNotFound (getReflected user_state))"
    using initializeBasis_user_states [of sysV envP] v by auto
  have 3: "fst (initializeBasis envP sysU) = None \<and>
           user_state \<notin> set (states (snd (initializeBasis envP sysU)))"
    using initializeBasis_user_states [of sysU envP] u by auto
  have 4: "fst (initializeBasis envP sysX) = None \<and>
           user_state \<in> set (states (snd (initializeBasis envP sysX)))"
    using initializeBasis_user_states [of sysX envP] x by auto
  from c v u x 1 2 3 4 show ?thesis by simp
qed

lemma sysG_fields:
  "range_n sysG = [5]" "range_l sysG = [0]" "range_j sysG = []" "range_m sysG = [- 1 / 4, 1 / 4]"
  "states sysG = []" "states_to_add sysG = []"
  "sym_reflection sysG = EVEN" "sym_rotation sysG = [ARB]" "species sysG = ''Rb''"
  "energy_min sysG = double_lowest"  "energy_max sysG = double_max"
  by (simp_all add: sysG_def newSystemOne_def)

lemma pow_quarter: "std_pow_minus_one (- (1 / 4)) = None"
  by (simp add: std_pow_minus_one_def)

lemma sysG_enumeration:
  "enumeration envP sysG =
     (None, \<lparr>b_states = [quarter_state, getReflected quarter_state], b_idx = 1,
             basisvectors_triplets = [(0, 0, Some (1 / complex_of_real (sqrt 2))), (1, 0, None)],
             hamiltonian_triplets = [(0, 0, 0)]\<rparr>)"
  apply (simp add: enumeration_def sysG_fields spin_Rb n_body_def range_int_def l_body_def
      range_float_half j_body_def checkIsEnergyValid_def Let_def)
  apply (simp add: m_body_def mkStateOne_def sysG_fields addSymmetrizedBasisvectors_def Let_def
      build_start_def addBasisvectors_def pow_quarter quarter_state_def getReflected_def envP_def)
  done

lemma sysG_build:
  "initializeBasis envP sysG =
     (None, sysG\<lparr>states := [quarter_state, getReflected quarter_state],
                 basisvectors := setFromTriplets 2 1 [(0, 0, 1 / complex_of_real (sqrt 2))],
                 basisvectors_nan := [(1, 0)],
                 hamiltonian := setFromTriplets 1 1 [(0, 0, 0)]\<rparr>)"
  by (simp add: initializeBasis_def sysG_enumeration sysG_fields build_data_def numeral_2_eq_2)

text \<open>
  C2 at an input whose magnetic quantum numbers are neither integers nor half-integers.
  For the state with l = 0, j = 1/2, m = 1/4 the exponent l + m - j of the mirror
  coefficient is -1/4, so \<^verbatim>\<open>std::pow(-1, -0.25)\<close> is NaN. The build returns without an
  exception, with the state and its mirror partner registered and a basis of one column:
  the coefficient of the state is 1/sqrt 2, and the coefficient of the mirror partner is
  NaN, whose modulus is not 1/sqrt 2.
\<close>

theorem initializeBasis_quarter_momentum:
  "fst (initializeBasis envP sysG) = None \<and>
   states (snd (initializeBasis envP sysG)) = [quarter_state, getReflected quarter_state] \<and>
   getM quarter_state = 1 / 4 \<and>
   rows (basisvectors (snd (initializeBasis envP sysG))) = 2 \<and>
   cols (basisvectors (snd (initializeBasis envP sysG))) = 1 \<and>
   basis_coefficient (snd (initializeBasis envP sysG)) 0 0 = Some (1 / complex_of_real (sqrt 2)) \<and>
   basis_coefficient (snd (initializeBasis envP sysG)) 1 0 = None \<and>
   map_option cmod (basis_coefficient (snd (initializeBasis envP sysG)) 1 0) \<noteq> Some (1 / sqrt 2)"
  by (simp add: sysG_build basis_coefficient_def setFromTriplets_def quarter_state_def mkStateOne_def)

section \<open>The columns of the basis\<close>

lemma column_ok_append: "column_ok sts c ts \<Longrightarrow> column_ok (sts @ ext) c ts"
  unfolding column_ok_def by (fastforce simp: nth_append)

lemma addBasisvectors_effect:
  assumes "distinct (b_states b)"
  shows "\<exists>r ext. addBasisvectors st idx val b
           = b\<lparr>b_states := b_states b @ ext,
               basisvectors_triplets := basisvectors_triplets b @ [(r, idx, val)]\<rparr>
         \<and> r < length (b_states b @ ext) \<and> (b_states b @ ext) ! r = st \<and> distinct (b_states b @ ext)"
proof (cases "state_index st (b_states b)")
  case None
  then have "st \<notin> set (b_states b)" by (simp add: state_index_None)
  with None assms show ?thesis
    by (intro exI [of _ "length (b_states b)"] exI [of _ "[st]"]) (simp add: addBasisvectors_def)
next
  case (Some row)
  with state_index_Some [OF Some] assms show ?thesis
    by (intro exI [of _ row] exI [of _ "[]"]) (simp add: addBasisvectors_def)
qed

lemma cmod_mirror:
  "cmod (1 / complex_of_real (sqrt 2) * ((if ev then 1 else - 1) * imaginary_unit)
         * (if par = EVEN then 1 else - 1)) = 1 / sqrt 2"
  by (simp add: imaginary_unit_def norm_mult norm_divide)

lemma std_pow_minus_one_Some: "std_pow_minus_one x = Some p \<Longrightarrow> \<exists>ev. p = (if ev then 1 else - 1)"
  by (auto simp: std_pow_minus_one_def split: if_splits)

lemma getReflected_neq: "getM st \<noteq> 0 \<Longrightarrow> getReflected st \<noteq> st"
proof
  assume a: "getM st \<noteq> 0" and "getReflected st = st"
  then have "getM (getReflected st) = getM st" by simp
  with a show False by (simp add: getReflected_def)
qed

lemma basis_inv_single:
  assumes inv: "basis_inv b"
  shows "basis_inv ((addBasisvectors st (b_idx b) (Some 1) (b\<lparr>hamiltonian_triplets := h\<rparr>))
                      \<lparr>b_idx := b_idx b + 1\<rparr>)"
proof -
  let ?b1 = "b\<lparr>hamiltonian_triplets := h\<rparr>"
  from inv have d: "distinct (b_states ?b1)" by (simp add: basis_inv_def)
  from addBasisvectors_effect [OF d, of st "b_idx b" "Some 1"] obtain r ext
    where e: "addBasisvectors st (b_idx b) (Some 1) ?b1
                = ?b1\<lparr>b_states := b_states b @ ext,
                      basisvectors_triplets := basisvectors_triplets b @ [(r, b_idx b, Some 1)]\<rparr>"
      and r: "r < length (b_states b @ ext)" and d': "distinct (b_states b @ ext)"
    by auto
  have old: "filter (\<lambda>t. fst (snd t) = b_idx b) (basisvectors_triplets b) = []"
    using inv by (auto simp: basis_inv_def filter_empty_conv)
  have cols: "\<And>c. c < b_idx b \<Longrightarrow>
      column_ok (b_states b @ ext) c (filter (\<lambda>t. fst (snd t) = c) (basisvectors_triplets b))"
    using inv column_ok_append by (auto simp: basis_inv_def)
  have new: "column_ok (b_states b @ ext) (b_idx b) [(r, b_idx b, Some 1)]"
    using r by (auto simp: column_ok_def)
  show ?thesis
    unfolding e basis_inv_def
    using d' inv old cols new
    by (auto simp: basis_inv_def less_Suc_eq)
qed

lemma basis_inv_double:
  assumes inv: "basis_inv b" and m: "getM st \<noteq> 0" and v: "cmod v1 = 1 / sqrt 2"
    "v2 = None \<or> map_option cmod v2 = Some (1 / sqrt 2)"
  shows "basis_inv ((addBasisvectors (getReflected st) (b_idx b) v2
                       (addBasisvectors st (b_idx b) (Some v1) (b\<lparr>hamiltonian_triplets := h\<rparr>)))
                      \<lparr>b_idx := b_idx b + 1\<rparr>)"
proof -
  let ?b1 = "b\<lparr>hamiltonian_triplets := h\<rparr>"
  from inv have d: "distinct (b_states ?b1)" by (simp add: basis_inv_def)
  from addBasisvectors_effect [OF d, of st "b_idx b" "Some v1"] obtain r ext
    where e: "addBasisvectors st (b_idx b) (Some v1) ?b1
                = ?b1\<lparr>b_states := b_states b @ ext,
                      basisvectors_triplets := basisvectors_triplets b @ [(r, b_idx b, Some v1)]\<rparr>"
      and r: "r < length (b_states b @ ext)" "(b_states b @ ext) ! r = st"
      and d': "distinct (b_states b @ ext)"
    by auto
  let ?b2 = "?b1\<lparr>b_states := b_states b @ ext,
                   basisvectors_triplets := basisvectors_triplets b @ [(r, b_idx b, Some v1)]\<rparr>"
  from d' have d2: "distinct (b_states ?b2)" by simp
  from addBasisvectors_effect [OF d2, of "getReflected st" "b_idx b" v2] obtain r' ext'
    where e': "addBasisvectors (getReflected st) (b_idx b) v2 ?b2
                = ?b2\<lparr>b_states := (b_states b @ ext) @ ext',
                      basisvectors_triplets :=
                        (basisvectors_triplets b @ [(r, b_idx b, Some v1)]) @ [(r', b_idx b, v2)]\<rparr>"
      and r': "r' < length ((b_states b @ ext) @ ext')" "((b_states b @ ext) @ ext') ! r' = getReflected st"
      and d'': "distinct ((b_states b @ ext) @ ext')"
    by auto
  let ?sts = "(b_states b @ ext) @ ext'"
  from r have r2: "r < length ?sts" "?sts ! r = st" by (auto simp: nth_append)
  with r' getReflected_neq [OF m] have ne: "r \<noteq> r'" by auto
  have old: "filter (\<lambda>t. fst (snd t) = b_idx b) (basisvectors_triplets b) = []"
    using inv by (auto simp: basis_inv_def filter_empty_conv)
  have cols: "\<And>c. c < b_idx b \<Longrightarrow>
      column_ok ?sts c (filter (\<lambda>t. fst (snd t) = c) (basisvectors_triplets b))"
    using inv column_ok_append [of "b_states b" _ _ "ext @ ext'"] by (auto simp: basis_inv_def)
  have new: "column_ok ?sts (b_idx b) [(r, b_idx b, Some v1), (r', b_idx b, v2)]"
    unfolding column_ok_def using r2 r' ne v by blast
  show ?thesis
    unfolding e e' basis_inv_def
    using d'' inv old cols new
    by (auto simp: basis_inv_def less_Suc_eq)
qed

lemma preserved_basis_inv: "preserved basis_inv"
  unfolding preserved_def
proof (intro allI impI)
  fix st energy par b
  assume inv: "basis_inv b"
  let ?h = "hamiltonian_triplets b @ [(b_idx b, b_idx b, complex_of_real energy)]"
  show "basis_inv (addSymmetrizedBasisvectors st energy par b)"
  proof (cases "par \<noteq> NA \<and> getM st \<noteq> 0")
    case False
    then have "addSymmetrizedBasisvectors st energy par b
        = (addBasisvectors st (b_idx b) (Some 1) (b\<lparr>hamiltonian_triplets := ?h\<rparr>))
          \<lparr>b_idx := b_idx b + 1\<rparr>"
      by (auto simp: addSymmetrizedBasisvectors_def Let_def addBasisvectors_def split: option.splits)
    with basis_inv_single [OF inv] show ?thesis by simp
  next
    case True
    note sym = this
    show ?thesis
    proof (cases "getM st < 0")
      case True
      with sym inv show ?thesis by (simp add: addSymmetrizedBasisvectors_def)
    next
      case False
      let ?v2 = "map_option (\<lambda>p. 1 / complex_of_real (sqrt 2) * (p * imaginary_unit)
                   * (if par = EVEN then 1 else - 1))
                   (std_pow_minus_one (real_of_int (getL st) + getM st - getJ st))"
      from sym False
      have b': "addSymmetrizedBasisvectors st energy par b
                  = (addBasisvectors (getReflected st) (b_idx b) ?v2
                       (addBasisvectors st (b_idx b) (Some (1 / complex_of_real (sqrt 2)))
                         (b\<lparr>hamiltonian_triplets := ?h\<rparr>)))
                      \<lparr>b_idx := b_idx b + 1\<rparr>"
        by (auto simp: addSymmetrizedBasisvectors_def Let_def addBasisvectors_def
            split: option.splits)
      have 1: "cmod (1 / complex_of_real (sqrt 2)) = 1 / sqrt 2" by (simp add: norm_divide)
      have 2: "?v2 = None \<or> map_option cmod ?v2 = Some (1 / sqrt 2)"
      proof (cases "std_pow_minus_one (real_of_int (getL st) + getM st - getJ st)")
        case None
        then show ?thesis by simp
      next
        case (Some p)
        from std_pow_minus_one_Some [OF Some] obtain ev where p: "p = (if ev then 1 else - 1)" ..
        show ?thesis unfolding Some p using cmod_mirror [of ev par] by simp
      qed
      show ?thesis
        unfolding b' using basis_inv_double [OF inv _ 1 2] sym by blast
    qed
  qed
qed

lemma basis_inv_start: "distinct (states s) \<Longrightarrow> basis_inv (build_start s)"
  by (simp add: basis_inv_def build_start_def)

lemma initializeBasis_basis_inv:
  assumes "initializeBasis env s = (None, s')" and "distinct (states s)"
  shows "\<exists>b. basis_inv b \<and> s' = build_data s b"
proof -
  from initializeBasis_success [OF assms(1)] obtain b2
    where 1: "fst (enumeration env s) = None"
      and 3: "foreach (states_to_add s) (user_body env s) (snd (enumeration env s)) = (None, b2)"
      and s': "s' = build_data s b2"
    by blast
  from enumeration_invariant [OF preserved_basis_inv basis_inv_start [OF assms(2)],
      of env "fst (enumeration env s)" "snd (enumeration env s)"]
  have "basis_inv (snd (enumeration env s))" by simp
  from user_loop_invariant [OF preserved_basis_inv this 3] s' show ?thesis by blast
qed

lemma setFromTriplets_column:
  "r < nr \<Longrightarrow> c < nc \<Longrightarrow>
   coeff (setFromTriplets nr nc ts) r c
     = sum_list (map (\<lambda>t. snd (snd t))
         (filter (\<lambda>t. fst t = r) (filter (\<lambda>t. fst (snd t) = c) ts)))"
  by (simp add: setFromTriplets_def conj_commute)

lemma setFromTriplets_outside: "\<not> r < nr \<Longrightarrow> coeff (setFromTriplets nr nc ts) r c = 0"
  by (simp add: setFromTriplets_def)

lemma sqrt2_inverse_pos: "0 < 1 / sqrt 2"
  by simp

lemma number_triplets_filter:
  "filter (\<lambda>t. fst (snd t) = c) (number_triplets ts)
     = number_triplets (filter (\<lambda>t. fst (snd t) = c) ts)"
  by (induction ts rule: number_triplets.induct) simp_all

lemma nan_positions_filter:
  "(x, c) \<in> set (nan_positions ts)
     \<longleftrightarrow> (x, c) \<in> set (nan_positions (filter (\<lambda>t. fst (snd t) = c) ts))"
  by (induction ts rule: nan_positions.induct) auto

lemma column_ok_matrix:
  assumes ok: "column_ok sts c (filter (\<lambda>t. fst (snd t) = c) ts)" and c: "c < nc"
    and coef: "\<And>x. coef x = (if (x, c) \<in> set (nan_positions ts) then None
                    else Some (coeff (setFromTriplets (length sts) nc (number_triplets ts)) x c))"
  shows "(\<exists>r. r < length sts \<and> {x. coef x \<noteq> Some 0} = {r} \<and> coef r = Some 1) \<or>
         (\<exists>r r'. r < length sts \<and> r' < length sts \<and> r \<noteq> r'
              \<and> {x. coef x \<noteq> Some 0} = {r, r'}
              \<and> sts ! r' = getReflected (sts ! r)
              \<and> map_option cmod (coef r) = Some (1 / sqrt 2)
              \<and> (coef r' = None \<or> map_option cmod (coef r') = Some (1 / sqrt 2)))"
proof -
  let ?B = "setFromTriplets (length sts) nc (number_triplets ts)"
  let ?col = "filter (\<lambda>t. fst (snd t) = c) ts"
  have B: "\<And>x. x < length sts \<Longrightarrow> coeff ?B x c
      = sum_list (map (\<lambda>t. snd (snd t)) (filter (\<lambda>t. fst t = x) (number_triplets ?col)))"
    using c by (simp add: setFromTriplets_column number_triplets_filter)
  have N: "\<And>x. (x, c) \<in> set (nan_positions ts) \<longleftrightarrow> (x, c) \<in> set (nan_positions ?col)"
    by (rule nan_positions_filter)
  from ok consider
    (single) r where "r < length sts" "?col = [(r, c, Some 1)]"
  | (double) r r' v v' where "r < length sts" "r' < length sts"
      "?col = [(r, c, Some v), (r', c, Some v')]" "r \<noteq> r'"
      "cmod v = 1 / sqrt 2" "cmod v' = 1 / sqrt 2" "sts ! r' = getReflected (sts ! r)"
  | (nan) r r' v where "r < length sts" "r' < length sts"
      "?col = [(r, c, Some v), (r', c, None)]" "r \<noteq> r'"
      "cmod v = 1 / sqrt 2" "sts ! r' = getReflected (sts ! r)"
    unfolding column_ok_def by fastforce
  then show ?thesis
  proof cases
    case single
    have v: "\<And>x. coef x = Some (if x = r then 1 else 0)"
    proof -
      fix x
      show "coef x = Some (if x = r then 1 else 0)"
      proof (cases "x < length sts")
        case True
        with single show ?thesis by (simp add: coef N B)
      next
        case False
        with single show ?thesis by (auto simp: coef N setFromTriplets_outside)
      qed
    qed
    have "{x. coef x \<noteq> Some 0} = {r}" by (auto simp: v)
    with single(1) v show ?thesis by auto
  next
    case double
    have v: "\<And>x. coef x = Some (if x = r then v else if x = r' then v' else 0)"
    proof -
      fix x
      show "coef x = Some (if x = r then v else if x = r' then v' else 0)"
      proof (cases "x < length sts")
        case True
        with double show ?thesis by (simp add: coef N B)
      next
        case False
        with double show ?thesis by (auto simp: coef N setFromTriplets_outside)
      qed
    qed
    from double(5,6) sqrt2_inverse_pos have nz: "v \<noteq> 0" "v' \<noteq> 0" by auto
    have "{x. coef x \<noteq> Some 0} = {r, r'}" using nz by (auto simp: v)
    moreover have "map_option cmod (coef r) = Some (1 / sqrt 2)"
      "map_option cmod (coef r') = Some (1 / sqrt 2)"
      using double(4,5,6) by (simp_all add: v)
    ultimately show ?thesis using double(1,2,4,7) by blast
  next
    case nan
    have v: "\<And>x. coef x = (if x = r' then None else Some (if x = r then v else 0))"
    proof -
      fix x
      show "coef x = (if x = r' then None else Some (if x = r then v else 0))"
      proof (cases "x < length sts")
        case True
        with nan show ?thesis by (simp add: coef N B)
      next
        case False
        with nan show ?thesis by (auto simp: coef N setFromTriplets_outside)
      qed
    qed
    from nan(5) sqrt2_inverse_pos have nz: "v \<noteq> 0" by auto
    have "{x. coef x \<noteq> Some 0} = {r, r'}" using nz by (auto simp: v)
    moreover have "map_option cmod (coef r) = Some (1 / sqrt 2)" "coef r' = None"
      using nan(4,5) by (simp_all add: v)
    ultimately show ?thesis using nan(1,2,4,6) by blast
  qed
qed

text \<open>
  Whenever the build returns, from a registry without repetition: no state is registered
  twice, and every column of \<open>basisvectors\<close> has either one nonzero row, with the
  coefficient 1, or two, whose states are mirror partners; the coefficient of the first has
  the modulus 1/sqrt 2, and the coefficient of the second is NaN or has the modulus
  1/sqrt 2. So C2 holds of every basis without a NaN coefficient (the second lemma).
\<close>

lemma initializeBasis_columns:
  assumes "initializeBasis env s = (None, s')" and "distinct (states s)"
  shows "distinct (states s') \<and> rows (basisvectors s') = length (states s') \<and>
         (c < cols (basisvectors s') \<longrightarrow>
           (\<exists>r. r < length (states s') \<and> {x. basis_coefficient s' x c \<noteq> Some 0} = {r}
                \<and> basis_coefficient s' r c = Some 1) \<or>
           (\<exists>r r'. r < length (states s') \<and> r' < length (states s') \<and> r \<noteq> r'
                \<and> {x. basis_coefficient s' x c \<noteq> Some 0} = {r, r'}
                \<and> states s' ! r' = getReflected (states s' ! r)
                \<and> map_option cmod (basis_coefficient s' r c) = Some (1 / sqrt 2)
                \<and> (basis_coefficient s' r' c = None
                    \<or> map_option cmod (basis_coefficient s' r' c) = Some (1 / sqrt 2))))"
proof -
  from initializeBasis_basis_inv [OF assms] obtain b
    where inv: "basis_inv b" and s': "s' = build_data s b" by blast
  have st: "states s' = b_states b"
    and B: "basisvectors s'
      = setFromTriplets (length (b_states b)) (b_idx b) (number_triplets (basisvectors_triplets b))"
    and N: "basisvectors_nan s' = nan_positions (basisvectors_triplets b)"
    by (simp_all add: s' build_data_def)
  have dims: "rows (basisvectors s') = length (states s')" "cols (basisvectors s') = b_idx b"
    by (simp_all add: B st setFromTriplets_def)
  from inv have d: "distinct (states s')" by (simp add: st basis_inv_def)
  have coef: "\<And>x. basis_coefficient s' x c =
      (if (x, c) \<in> set (nan_positions (basisvectors_triplets b)) then None
       else Some (coeff (setFromTriplets (length (b_states b)) (b_idx b)
                          (number_triplets (basisvectors_triplets b))) x c))"
    by (simp add: basis_coefficient_def B N)
  show ?thesis
  proof (intro conjI impI)
    show "distinct (states s')" by (rule d)
    show "rows (basisvectors s') = length (states s')" by (rule dims)
  next
    assume "c < cols (basisvectors s')"
    then have c: "c < b_idx b" by (simp add: dims)
    with inv have "column_ok (b_states b) c (filter (\<lambda>t. fst (snd t) = c) (basisvectors_triplets b))"
      by (simp add: basis_inv_def)
    from column_ok_matrix [OF this c coef]
    show "(\<exists>r. r < length (states s') \<and> {x. basis_coefficient s' x c \<noteq> Some 0} = {r}
                \<and> basis_coefficient s' r c = Some 1) \<or>
           (\<exists>r r'. r < length (states s') \<and> r' < length (states s') \<and> r \<noteq> r'
                \<and> {x. basis_coefficient s' x c \<noteq> Some 0} = {r, r'}
                \<and> states s' ! r' = getReflected (states s' ! r)
                \<and> map_option cmod (basis_coefficient s' r c) = Some (1 / sqrt 2)
                \<and> (basis_coefficient s' r' c = None
                    \<or> map_option cmod (basis_coefficient s' r' c) = Some (1 / sqrt 2)))"
      unfolding st .
  qed
qed

lemma initializeBasis_columns_numbers:
  assumes "initializeBasis env s = (None, s')" and "distinct (states s)"
    and "basisvectors_nan s' = []"
  shows "distinct (states s') \<and> rows (basisvectors s') = length (states s') \<and>
         (c < cols (basisvectors s') \<longrightarrow>
           (\<exists>r. r < length (states s') \<and> {x. coeff (basisvectors s') x c \<noteq> 0} = {r}
                \<and> coeff (basisvectors s') r c = 1) \<or>
           (\<exists>r r'. r < length (states s') \<and> r' < length (states s') \<and> r \<noteq> r'
                \<and> {x. coeff (basisvectors s') x c \<noteq> 0} = {r, r'}
                \<and> states s' ! r' = getReflected (states s' ! r)
                \<and> cmod (coeff (basisvectors s') r c) = 1 / sqrt 2
                \<and> cmod (coeff (basisvectors s') r' c) = 1 / sqrt 2))"
  using initializeBasis_columns [OF assms(1,2), of c] assms(3)
  by (simp add: basis_coefficient_def)

lemma std_pow_minus_one_None: "std_pow_minus_one x = None \<longleftrightarrow> x \<notin> \<int>"
proof
  assume "std_pow_minus_one x = None"
  then have "x \<noteq> real_of_int \<lfloor>x\<rfloor>" by (simp add: std_pow_minus_one_def split: if_splits)
  then show "x \<notin> \<int>" by (auto simp: Ints_def)
next
  assume "x \<notin> \<int>"
  then have "x \<noteq> real_of_int \<lfloor>x\<rfloor>" by (metis Ints_of_int)
  then show "std_pow_minus_one x = None" by (simp add: std_pow_minus_one_def)
qed

lemma nan_positions_append:
  "nan_positions (xs @ ys) = nan_positions xs @ nan_positions ys"
  by (induction xs rule: nan_positions.induct) simp_all

lemma addBasisvectors_nan:
  "nan_positions (basisvectors_triplets (addBasisvectors st idx (Some v) b))
     = nan_positions (basisvectors_triplets b)"
  by (simp add: addBasisvectors_def nan_positions_append split: option.splits)

lemma preserved_nan_traced: "preserved nan_traced"
  unfolding preserved_def
proof (intro allI impI)
  fix st energy par b
  assume q: "nan_traced b"
  let ?b' = "addSymmetrizedBasisvectors st energy par b"
  have grow: "set (b_states b) \<subseteq> set (b_states ?b')"
    by (auto simp: addSymmetrizedBasisvectors_states)
  show "nan_traced ?b'"
  proof (cases "nan_positions (basisvectors_triplets b) = []")
    case False
    with q grow show ?thesis unfolding nan_traced_def by blast
  next
    case True
    show ?thesis
    proof (cases "par \<noteq> NA \<and> getM st \<noteq> 0 \<and> \<not> getM st < 0
                  \<and> real_of_int (getL st) + getM st - getJ st \<notin> \<int>")
      case True
      then have "st \<in> set (b_states ?b')" by (simp add: addSymmetrizedBasisvectors_states)
      with True show ?thesis unfolding nan_traced_def by blast
    next
      case False
      then have "nan_positions (basisvectors_triplets ?b') = nan_positions (basisvectors_triplets b)"
        by (cases "std_pow_minus_one (real_of_int (getL st) + getM st - getJ st)")
           (auto simp: addSymmetrizedBasisvectors_def Let_def addBasisvectors_nan
             std_pow_minus_one_None)
      with True show ?thesis by (simp add: nan_traced_def)
    qed
  qed
qed

text \<open>
  The build yields no NaN coefficient when the exponent l + m - j of every registered state
  is an integer, as it is for the quantum numbers of an atom (l an integer, j and m both
  integers or both half-integers); C2 then holds.
\<close>

lemma initializeBasis_nan_traced:
  assumes "initializeBasis env s = (None, s')"
    and "\<forall>st \<in> set (states s'). real_of_int (getL st) + getM st - getJ st \<in> \<int>"
  shows "basisvectors_nan s' = []"
proof -
  from initializeBasis_success [OF assms(1)] obtain b2
    where 3: "foreach (states_to_add s) (user_body env s) (snd (enumeration env s)) = (None, b2)"
      and s': "s' = build_data s b2"
    by blast
  have "nan_traced (build_start s)" by (simp add: nan_traced_def build_start_def)
  from enumeration_invariant [OF preserved_nan_traced this, of env "fst (enumeration env s)"
      "snd (enumeration env s)"]
  have "nan_traced (snd (enumeration env s))" by simp
  from user_loop_invariant [OF preserved_nan_traced this 3] have "nan_traced b2" .
  with assms(2) show ?thesis by (auto simp: s' build_data_def nan_traced_def)
qed

lemma initializeBasis_columns_integral:
  assumes "initializeBasis env s = (None, s')" and "distinct (states s)"
    and "\<forall>st \<in> set (states s'). real_of_int (getL st) + getM st - getJ st \<in> \<int>"
  shows "distinct (states s') \<and> rows (basisvectors s') = length (states s') \<and>
         basisvectors_nan s' = [] \<and>
         (c < cols (basisvectors s') \<longrightarrow>
           (\<exists>r. r < length (states s') \<and> {x. coeff (basisvectors s') x c \<noteq> 0} = {r}
                \<and> coeff (basisvectors s') r c = 1) \<or>
           (\<exists>r r'. r < length (states s') \<and> r' < length (states s') \<and> r \<noteq> r'
                \<and> {x. coeff (basisvectors s') x c \<noteq> 0} = {r, r'}
                \<and> states s' ! r' = getReflected (states s' ! r)
                \<and> cmod (coeff (basisvectors s') r c) = 1 / sqrt 2
                \<and> cmod (coeff (basisvectors s') r' c) = 1 / sqrt 2))"
  using initializeBasis_columns_numbers [OF assms(1,2) initializeBasis_nan_traced [OF assms(1,3)], of c]
    initializeBasis_nan_traced [OF assms(1,3)]
  by blast

end
